theory Spec2Isabelle
  imports Complex_Main
begin

section \<open>JavaScript values used by the VertexArray class\<close>

text \<open>
  A JavaScript number is a finite double, one of the two infinities, or NaN. The class
  only compares numbers, takes \<open>Math.min\<close> of them and tests \<open>Number.isFinite\<close>; none of
  these rounds, so the finite doubles are embedded in the reals.
\<close>

datatype jsnum = Fin real | PosInfinity | NegInfinity | NaN

fun Number_isFinite :: "jsnum \<Rightarrow> bool" where
  "Number_isFinite (Fin r) = True"
| "Number_isFinite PosInfinity = False"
| "Number_isFinite NegInfinity = False"
| "Number_isFinite NaN = False"

text \<open>The comparisons \<open>x > 0\<close> and \<open>x >= 0\<close> on numbers; NaN compares false.\<close>

fun gt_zero :: "jsnum \<Rightarrow> bool" where
  "gt_zero (Fin r) = (0 < r)"
| "gt_zero PosInfinity = True"
| "gt_zero NegInfinity = False"
| "gt_zero NaN = False"

fun ge_zero :: "jsnum \<Rightarrow> bool" where
  "ge_zero (Fin r) = (0 \<le> r)"
| "ge_zero PosInfinity = True"
| "ge_zero NegInfinity = False"
| "ge_zero NaN = False"

text \<open>\<open>Math.min(a, b)\<close>: NaN if either argument is NaN, else the smaller one.\<close>

fun Math_min :: "jsnum \<Rightarrow> jsnum \<Rightarrow> jsnum" where
  "Math_min NaN y = NaN"
| "Math_min (Fin a) NaN = NaN"
| "Math_min PosInfinity NaN = NaN"
| "Math_min NegInfinity NaN = NaN"
| "Math_min NegInfinity (Fin b) = NegInfinity"
| "Math_min NegInfinity PosInfinity = NegInfinity"
| "Math_min NegInfinity NegInfinity = NegInfinity"
| "Math_min (Fin a) NegInfinity = NegInfinity"
| "Math_min PosInfinity NegInfinity = NegInfinity"
| "Math_min PosInfinity (Fin b) = Fin b"
| "Math_min PosInfinity PosInfinity = PosInfinity"
| "Math_min (Fin a) PosInfinity = Fin a"
| "Math_min (Fin a) (Fin b) = Fin (min a b)"

text \<open>
  An accessor (class \<open>Accessor\<close>, or a plain options object such as \<open>{}\<close>): of its
  fields the class reads \<open>size\<close>, \<open>type\<close> and \<open>divisor\<close>. \<open>None\<close> is a field that is
  \<open>undefined\<close>.
\<close>

record accessor =
  acc_size :: "jsnum option"
  acc_type :: "jsnum option"
  divisor :: "jsnum option"

definition empty_object :: accessor where
  "empty_object = \<lparr>acc_size = None, acc_type = None, divisor = None\<rparr>"

text \<open>\<open>Number.isFinite\<close> and \<open>> 0\<close> on a field that may be undefined.\<close>

fun field_isFinite :: "jsnum option \<Rightarrow> bool" where
  "field_isFinite None = False"
| "field_isFinite (Some n) = Number_isFinite n"

fun field_gt_zero :: "jsnum option \<Rightarrow> bool" where
  "field_gt_zero None = False"
| "field_gt_zero (Some n) = gt_zero n"

text \<open>
  A \<open>Buffer\<close> object: its GL handle, its \<open>target\<close>, its \<open>type\<close> and its own \<open>accessor\<close>
  (which may be undefined).
\<close>

record gl_buffer =
  handle :: nat
  target :: nat
  buf_type :: nat
  buf_accessor :: "accessor option"

text \<open>The WebGL constants of \<open>../constants\<close> that the class names.\<close>

definition GL_ARRAY_BUFFER :: nat where "GL_ARRAY_BUFFER = 34962"
definition GL_ELEMENT_ARRAY_BUFFER :: nat where "GL_ELEMENT_ARRAY_BUFFER = 34963"
definition GL_FLOAT :: nat where "GL_FLOAT = 5126"

datatype jsval =
    JUndefined
  | JNull
  | JBool bool
  | JNumber jsnum
  | JString string
  | JBuffer (the_Buffer: gl_buffer)
  | JTypedArray "jsnum list"
  | JArray (the_Array: "jsval list")
  | JObject accessor

text \<open>Truthiness, as tested by \<open>!value\<close> and \<open>||\<close>.\<close>

fun truthy :: "jsval \<Rightarrow> bool" where
  "truthy JUndefined = False"
| "truthy JNull = False"
| "truthy (JBool b) = b"
| "truthy (JNumber n) = (n \<noteq> NaN \<and> n \<noteq> Fin 0)"
| "truthy (JString s) = (s \<noteq> [])"
| "truthy (JBuffer b) = True"
| "truthy (JTypedArray t) = True"
| "truthy (JArray xs) = True"
| "truthy (JObject a) = True"

fun instanceof_Buffer :: "jsval \<Rightarrow> bool" where
  "instanceof_Buffer (JBuffer b) = True"
| "instanceof_Buffer v = False"

fun Array_isArray :: "jsval \<Rightarrow> bool" where
  "Array_isArray (JArray xs) = True"
| "Array_isArray v = False"

fun ArrayBuffer_isView :: "jsval \<Rightarrow> bool" where
  "ArrayBuffer_isView (JTypedArray t) = True"
| "ArrayBuffer_isView v = False"

text \<open>\<open>value[i]\<close> on a plain array: \<open>undefined\<close> out of range.\<close>

definition element_at :: "jsval list \<Rightarrow> nat \<Rightarrow> jsval" where
  "element_at xs i = (if i < length xs then xs ! i else JUndefined)"

text \<open>A default parameter \<open>optAccessor = {}\<close> replaces an argument that is \<open>undefined\<close>.\<close>

definition default_object :: "jsval \<Rightarrow> jsval" where
  "default_object a = (if a = JUndefined then JObject empty_object else a)"

subsection \<open>The attribute tables: JavaScript arrays\<close>

text \<open>
  \<open>this.values\<close> and \<open>this.accessors\<close> are JavaScript arrays. A store \<open>a[k] = v\<close> with \<open>k\<close>
  an array index (an integer from 0 below \<open>2^32 - 1\<close>) writes the element and, when
  \<open>k\<close> is at or beyond the length, extends the array with holes (read as \<open>undefined\<close>);
  with any other number it sets a named property and leaves elements and length alone.
\<close>

record js_array =
  items :: "jsval list"
  named :: "jsnum \<Rightarrow> jsval option"

definition new_Array_fill :: "nat \<Rightarrow> jsval \<Rightarrow> js_array" where
  "new_Array_fill n v = \<lparr>items = replicate n v, named = (\<lambda>k. None)\<rparr>"

definition is_array_index :: "real \<Rightarrow> bool" where
  "is_array_index r \<longleftrightarrow> 0 \<le> r \<and> r = real_of_int \<lfloor>r\<rfloor> \<and> r < 4294967295"

definition array_get :: "js_array \<Rightarrow> nat \<Rightarrow> jsval" where
  "array_get a i =
     (if i < length (items a) then items a ! i
      else (case named a (Fin (real i)) of Some v \<Rightarrow> v | None \<Rightarrow> JUndefined))"

definition store_item :: "jsval list \<Rightarrow> nat \<Rightarrow> jsval \<Rightarrow> jsval list" where
  "store_item xs i v = (xs @ replicate (Suc i - length xs) JUndefined)[i := v]"

fun array_set :: "js_array \<Rightarrow> jsnum \<Rightarrow> jsval \<Rightarrow> js_array" where
  "array_set a (Fin r) v =
     (if is_array_index r then a\<lparr>items := store_item (items a) (nat \<lfloor>r\<rfloor>) v\<rparr>
      else a\<lparr>named := (named a)(Fin r \<mapsto> v)\<rparr>)"
| "array_set a k v = a\<lparr>named := (named a)(k \<mapsto> v)\<rparr>"

definition array_length :: "js_array \<Rightarrow> nat" where
  "array_length a = length (items a)"


section \<open>The objects around a VertexArray\<close>

text \<open>An attribute is addressed by a name (a string) or by a location (a number).\<close>

datatype locationOrName = Name string | Location jsnum

text \<open>
  What \<open>configuration.getAttributeInfo\<close> returns when it knows the attribute: an object
  whose \<open>accessor\<close> the class reads.
\<close>

record attribute_info =
  info_accessor :: accessor

text \<open>
  A program configuration, an object with the two methods the class calls. A result of
  \<open>getLocation\<close> that is not a number behaves as NaN under \<open>Number.isFinite\<close> and
  \<open>>= 0\<close>.
\<close>

record configuration =
  getLocation :: "locationOrName \<Rightarrow> jsnum"
  getAttributeInfo :: "locationOrName \<Rightarrow> attribute_info option"

record program =
  program_id :: "string option"
  program_configuration :: "configuration option"

text \<open>
  The delegate \<open>this.vertexArrayObject\<close>: of its fields the class reads \<open>isDefaultArray\<close>
  and \<open>MAX_ATTRIBUTES\<close>.
\<close>

record vertex_array_object =
  isDefaultArray :: bool
  MAX_ATTRIBUTES :: nat

datatype gl = WebGLContext nat

text \<open>
  The props (or constructor options) object. For \<open>program\<close>, \<open>configuration\<close>,
  \<open>attributes\<close>, \<open>elements\<close> and \<open>bindOnUse\<close>, \<open>None\<close> says that the key is not in
  the object (\<open>'key' in props\<close> is false); an inner \<open>None\<close> is a value that is \<open>null\<close>
  or \<open>undefined\<close>. The attributes are listed in the order in which \<open>for ... in\<close>
  enumerates them (none for \<open>null\<close>); the keys of an object are strings. \<open>p_id\<close> is
  \<open>None\<close> when \<open>opts.id\<close> is \<open>undefined\<close>.
\<close>

record props =
  p_id :: "string option"
  p_program :: "program option option"
  p_configuration :: "configuration option option"
  p_attributes :: "(string \<times> jsval) list option"
  p_elements :: "gl_buffer option option"
  p_bindOnUse :: "jsval option"

text \<open>The draw parameters; \<open>elementCount\<close> and \<open>indexType\<close> exist only when indexed.\<close>

record draw_params =
  isIndexed :: bool
  isInstanced :: bool
  indexCount :: jsnum
  vertexCount :: jsnum
  instanceCount :: jsnum
  elementCount :: "jsnum option"
  indexType :: "nat option"

text \<open>
  Calls that leave the class: the methods of \<open>this.vertexArrayObject\<close>, of the WebGL
  context, of \<open>log\<close>, and the creation of a buffer. They are recorded in the order in
  which they happen. \<open>VAO_bind_enter\<close> and \<open>VAO_bind_leave\<close> bracket the callback given
  to \<open>vertexArrayObject.bind(callback)\<close>, which runs the callback once;
  \<open>VAO_bind\<close> and \<open>VAO_unbind\<close> are the calls \<open>bind()\<close> and \<open>unbind()\<close>.
\<close>

datatype event =
    VAO_bind_enter
  | VAO_bind_leave
  | VAO_bind
  | VAO_unbind
  | VAO_setElementBuffer "gl_buffer option" jsval
  | VAO_setBuffer jsnum gl_buffer accessor
  | VAO_enable jsnum bool
  | VAO_setConstant nat jsval
  | GL_bindBuffer nat "nat option"
  | GL_disableVertexAttribArray nat
  | GL_vertexAttribPointer nat nat nat bool nat nat
  | New_Buffer nat
  | Buffer_delete nat
  | Log_once locationOrName
  | Log_deprecated string string
  | Stub_removed_methods

datatype js_error = Error string | TypeError | AssertionFailed

text \<open>The fields of a VertexArray, and the record of the calls it has made.\<close>

record vertex_array =
  va_id :: "string option"
  va_gl :: gl
  configuration :: "configuration option"
  elements :: "gl_buffer option"
  values_arr :: js_array
  accessors :: js_array
  unused :: "locationOrName \<Rightarrow> jsval option"
  drawParams :: "draw_params option"
  buffer :: "gl_buffer option"
  vertexArrayObject :: vertex_array_object
  bindOnUse :: bool
  trace :: "event list"

text \<open>
  The collaborators whose code is outside this file, taken as parameters: the string
  case of the builtin \<open>Number\<close>, class \<open>Accessor\<close> (\<open>new Accessor()\<close> and
  \<open>accessor.getOptions(value, accessor1, accessor2)\<close>), class \<open>Buffer\<close>
  (\<open>getVertexCount\<close>, \<open>getElementCount\<close>, \<open>new Buffer(gl, {size})\<close>) and class
  \<open>VertexArrayObject\<close> (\<open>isSupported\<close>, the constructor, \<open>getDefaultArray\<close>,
  \<open>_normalizeConstantArrayValue\<close>). Their calls for effect are events of the trace
  and are taken not to throw.
\<close>

record env =
  Number_of_string :: "string \<Rightarrow> jsnum"
  new_Accessor :: accessor
  getOptions :: "accessor \<Rightarrow> jsval \<Rightarrow> jsval \<Rightarrow> jsval \<Rightarrow> accessor"
  getVertexCount :: "gl_buffer \<Rightarrow> jsval \<Rightarrow> jsnum"
  getElementCount :: "gl_buffer \<Rightarrow> jsval \<Rightarrow> jsnum"
  new_Buffer :: "gl \<Rightarrow> nat \<Rightarrow> gl_buffer"
  isSupported :: "gl \<Rightarrow> bool"
  new_VertexArrayObject :: "gl \<Rightarrow> vertex_array_object"
  getDefaultArray :: "gl \<Rightarrow> vertex_array_object"
  normalizeConstantArrayValue :: "jsval \<Rightarrow> accessor \<Rightarrow> jsval"

type_synonym 'a outcome = "(js_error + 'a) \<times> vertex_array"

definition ERR_ATTRIBUTE_TYPE :: string where
  "ERR_ATTRIBUTE_TYPE =
     ''VertexArray: attributes must be Buffers or constants (i.e. typed array)''"

definition emit :: "event \<Rightarrow> vertex_array \<Rightarrow> vertex_array" where
  "emit e s = s\<lparr>trace := trace s @ [e]\<rparr>"

definition accessor_value :: "accessor option \<Rightarrow> jsval" where
  "accessor_value a = (case a of None \<Rightarrow> JUndefined | Some x \<Rightarrow> JObject x)"

text \<open>\<open>Number(locationOrName)\<close>.\<close>

fun js_Number :: "env \<Rightarrow> locationOrName \<Rightarrow> jsnum" where
  "js_Number env (Location n) = n"
| "js_Number env (Name str) = Number_of_string env str"

section \<open>The methods of class VertexArray\<close>

text \<open>
  Each method takes the object's state and returns the new one; a method that can throw
  returns an outcome, \<open>Inl\<close> of the error with the state as the throw left it. A leading
  underscore of a method name is dropped.
\<close>

definition reset :: "vertex_array \<Rightarrow> vertex_array" where
  "reset s =
     (let n = MAX_ATTRIBUTES (vertexArrayObject s)
      in s\<lparr>elements := None,
            values_arr := new_Array_fill n JNull,
            accessors := new_Array_fill n JNull,
            unused := (\<lambda>k. None),
            drawParams := None\<rparr>)"

definition clearDrawParams :: "vertex_array \<Rightarrow> vertex_array" where
  "clearDrawParams s = s\<lparr>drawParams := None\<rparr>"

definition setElementBuffer :: "gl_buffer option \<Rightarrow> jsval \<Rightarrow> vertex_array \<Rightarrow> vertex_array" where
  "setElementBuffer elementBuffer accessor s =
     (let s1 = clearDrawParams (s\<lparr>elements := elementBuffer\<rparr>)
      in if \<not> isDefaultArray (vertexArrayObject s1)
         then emit (VAO_setElementBuffer elementBuffer (default_object accessor)) s1
         else s1)"

definition setElements :: "gl_buffer option \<Rightarrow> jsval \<Rightarrow> vertex_array \<Rightarrow> vertex_array" where
  "setElements elementBuffer accessor s =
     setElementBuffer elementBuffer (default_object accessor)
       (emit (Log_deprecated ''setElements'' ''setElementBuffer'') s)"

definition getAttributeInfo_of :: "vertex_array \<Rightarrow> locationOrName \<Rightarrow> attribute_info option" where
  "getAttributeInfo_of s attributeName =
     (case configuration s of
        None \<Rightarrow> None
      | Some c \<Rightarrow> getAttributeInfo c attributeName)"

definition getAttributeIndex :: "env \<Rightarrow> vertex_array \<Rightarrow> locationOrName \<Rightarrow> jsnum" where
  "getAttributeIndex env s locationOrName =
     (case configuration s of
        Some c \<Rightarrow> getLocation c locationOrName
      | None \<Rightarrow>
          (let location = js_Number env locationOrName
           in if Number_isFinite location then location else Fin (- 1)))"

text \<open>
  \<open>_resolveLocationAndAccessor\<close>. When the location is not finite the method returns
  \<open>this\<close>, whose \<open>location\<close> and \<open>accessor\<close> the callers then read as \<open>undefined\<close>: the
  result \<open>None\<close>.
\<close>

definition resolveLocationAndAccessor ::
  "env \<Rightarrow> locationOrName \<Rightarrow> jsval \<Rightarrow> jsval \<Rightarrow> jsval \<Rightarrow> vertex_array
     \<Rightarrow> (jsnum \<times> accessor) option outcome" where
  "resolveLocationAndAccessor env locationOrName val accessor1 accessor2 s =
     (let location = getAttributeIndex env s locationOrName
      in if \<not> Number_isFinite location
         then (Inr None,
               emit (Log_once locationOrName) (s\<lparr>unused := (unused s)(locationOrName \<mapsto> val)\<rparr>))
         else
           (let accessInfo = getAttributeInfo_of s locationOrName;
                accessor0 = (case accessInfo of
                               Some info \<Rightarrow> info_accessor info
                             | None \<Rightarrow> new_Accessor env);
                accessor = getOptions env accessor0 val accessor1 accessor2
            in if field_isFinite (acc_size accessor) \<and> field_isFinite (acc_type accessor)
               then (Inr (Some (location, accessor)), s)
               else (Inl AssertionFailed, s)))"

definition setBuffer ::
  "env \<Rightarrow> locationOrName \<Rightarrow> gl_buffer \<Rightarrow> jsval \<Rightarrow> vertex_array \<Rightarrow> unit outcome" where
  "setBuffer env locationOrName buf optAccessor s =
     (if target buf = GL_ELEMENT_ARRAY_BUFFER
      then (Inr (), setElements (Some buf) JUndefined s)
      else
        (case resolveLocationAndAccessor env locationOrName (JBuffer buf)
                (accessor_value (buf_accessor buf)) (default_object optAccessor) s of
           (Inl e, s1) \<Rightarrow> (Inl e, s1)
         | (Inr None, s1) \<Rightarrow> (Inr (), s1)
         | (Inr (Some (location, accessor)), s1) \<Rightarrow>
             (if ge_zero location
              then
                (let s2 = clearDrawParams
                            (s1\<lparr>values_arr := array_set (values_arr s1) location (JBuffer buf),
                                accessors := array_set (accessors s1) location (JObject accessor)\<rparr>)
                 in (Inr (),
                     if \<not> isDefaultArray (vertexArrayObject s2)
                     then emit (VAO_setBuffer location buf accessor) s2
                     else s2))
              else (Inr (), s1))))"

definition setConstant ::
  "env \<Rightarrow> locationOrName \<Rightarrow> jsval \<Rightarrow> jsval \<Rightarrow> vertex_array \<Rightarrow> unit outcome" where
  "setConstant env locationOrName arrayValue optAccessor s =
     (case resolveLocationAndAccessor env locationOrName arrayValue
             (JObject empty_object) (default_object optAccessor) s of
        (Inl e, s1) \<Rightarrow> (Inl e, s1)
      | (Inr None, s1) \<Rightarrow> (Inr (), s1)
      | (Inr (Some (location, accessor)), s1) \<Rightarrow>
          (if ge_zero location
           then
             (let arrayValue1 = normalizeConstantArrayValue env arrayValue accessor;
                  s2 = clearDrawParams
                         (s1\<lparr>values_arr := array_set (values_arr s1) location arrayValue1,
                             accessors := array_set (accessors s1) location (JObject accessor)\<rparr>)
              in (Inr (),
                  if \<not> isDefaultArray (vertexArrayObject s2)
                  then emit (VAO_enable location False) s2
                  else s2))
           else (Inr (), s1)))"


text \<open>
  \<open>setAttributes\<close>: the loop over the keys of the attributes object, inside the callback
  of \<open>vertexArrayObject.bind\<close>. A throw leaves the loop and the callback.
\<close>

fun setAttributes_loop :: "env \<Rightarrow> (string \<times> jsval) list \<Rightarrow> vertex_array \<Rightarrow> unit outcome" where
  "setAttributes_loop env [] s = (Inr (), s)"
| "setAttributes_loop env ((locationOrName, val) # rest) s =
     (if instanceof_Buffer val
      then (case setBuffer env (Name locationOrName) (the_Buffer val) JUndefined s of
              (Inl e, s1) \<Rightarrow> (Inl e, s1)
            | (Inr u, s1) \<Rightarrow> setAttributes_loop env rest s1)
      else if Array_isArray val \<and> length (the_Array val) \<noteq> 0
              \<and> instanceof_Buffer (element_at (the_Array val) 0)
      then (case setBuffer env (Name locationOrName) (the_Buffer (element_at (the_Array val) 0))
                   (element_at (the_Array val) 1) s of
              (Inl e, s1) \<Rightarrow> (Inl e, s1)
            | (Inr u, s1) \<Rightarrow> setAttributes_loop env rest s1)
      else if ArrayBuffer_isView val \<or> Array_isArray val
      then (case setConstant env (Name locationOrName) val JUndefined s of
              (Inl e, s1) \<Rightarrow> (Inl e, s1)
            | (Inr u, s1) \<Rightarrow> setAttributes_loop env rest s1)
      else (Inl (Error ERR_ATTRIBUTE_TYPE), s))"

definition setAttributes :: "env \<Rightarrow> (string \<times> jsval) list \<Rightarrow> vertex_array \<Rightarrow> unit outcome" where
  "setAttributes env attributes s =
     (case setAttributes_loop env attributes (emit VAO_bind_enter s) of
        (Inl e, s1) \<Rightarrow> (Inl e, s1)
      | (Inr u, s1) \<Rightarrow>
          (Inr (), emit VAO_bind_leave (emit (GL_bindBuffer GL_ARRAY_BUFFER None) s1)))"

text \<open>
  \<open>setProps\<close>. Its last branch, \<open>if ('bindOnUse' in props) props = props.bindOnUse\<close>,
  assigns the parameter and no field: it has no counterpart in the state.
\<close>

definition setProps :: "env \<Rightarrow> props \<Rightarrow> vertex_array \<Rightarrow> unit outcome" where
  "setProps env props s =
     (let s1 = (case p_program props of
                  None \<Rightarrow> s
                | Some None \<Rightarrow> s\<lparr>configuration := None\<rparr>
                | Some (Some prog) \<Rightarrow> s\<lparr>configuration := program_configuration prog\<rparr>);
          s2 = (case p_configuration props of
                  None \<Rightarrow> s1
                | Some c \<Rightarrow> s1\<lparr>configuration := c\<rparr>)
      in case (case p_attributes props of
                 None \<Rightarrow> (Inr (), s2)
               | Some attributes \<Rightarrow> setAttributes env attributes s2) of
           (Inl e, s3) \<Rightarrow> (Inl e, s3)
         | (Inr u, s3) \<Rightarrow>
             (Inr (), case p_elements props of
                        None \<Rightarrow> s3
                      | Some elementBuffer \<Rightarrow> setElements elementBuffer JUndefined s3))"

definition initialize :: "env \<Rightarrow> props \<Rightarrow> vertex_array \<Rightarrow> unit outcome" where
  "initialize env props s =
     setProps env props ((reset s)\<lparr>configuration := None, bindOnUse := False\<rparr>)"

text \<open>
  The constructor. Before \<open>initialize\<close> runs, \<open>values\<close> and \<open>accessors\<close> are \<open>null\<close> and
  \<open>bindOnUse\<close> does not exist; \<open>reset\<close> and \<open>initialize\<close> assign all three before any
  read, so the model starts them as empty arrays and \<open>False\<close>.
\<close>

definition constructor :: "env \<Rightarrow> gl \<Rightarrow> props \<Rightarrow> unit outcome" where
  "constructor env g opts =
     (let ident = (case p_id opts of
                     Some i \<Rightarrow> if i \<noteq> [] then Some i
                               else (case p_program opts of
                                       Some (Some prog) \<Rightarrow> program_id prog
                                     | _ \<Rightarrow> None)
                   | None \<Rightarrow> (case p_program opts of
                               Some (Some prog) \<Rightarrow> program_id prog
                             | _ \<Rightarrow> None));
          s0 = \<lparr>va_id = ident, va_gl = g, configuration = None, elements = None,
                values_arr = new_Array_fill 0 JNull, accessors = new_Array_fill 0 JNull,
                unused = (\<lambda>k. None), drawParams = None, buffer = None,
                vertexArrayObject =
                  (if isSupported env g then new_VertexArrayObject env g
                   else getDefaultArray env g),
                bindOnUse = False, trace = [Stub_removed_methods]\<rparr>
      in initialize env opts s0)"

definition delete :: "vertex_array \<Rightarrow> vertex_array" where
  "delete s = (case buffer s of None \<Rightarrow> s | Some b \<Rightarrow> emit (Buffer_delete (handle b)) s)"

text \<open>\<open>this.buffer = this.buffer || new Buffer(this.gl, {size})\<close>.\<close>

definition buffer_or_new :: "env \<Rightarrow> nat \<Rightarrow> vertex_array \<Rightarrow> vertex_array" where
  "buffer_or_new env sz s =
     (case buffer s of
        Some b \<Rightarrow> s
      | None \<Rightarrow> emit (New_Buffer sz) (s\<lparr>buffer := Some (new_Buffer env (va_gl s) sz)\<rparr>))"

definition updateAttributeZeroBuffer :: "env \<Rightarrow> jsval \<Rightarrow> vertex_array \<Rightarrow> vertex_array" where
  "updateAttributeZeroBuffer env len s =
     (let constant = array_get (values_arr s) 0
      in if ArrayBuffer_isView constant then buffer_or_new env 1 s else s)"

definition setConstantAttributes_at :: "nat \<Rightarrow> vertex_array \<Rightarrow> vertex_array" where
  "setConstantAttributes_at location s =
     (let constant = array_get (values_arr s) location
      in if ArrayBuffer_isView constant
         then emit (VAO_setConstant location constant)
                (emit (VAO_enable (Fin (real location)) False) s)
         else s)"

definition setConstantAttributes :: "vertex_array \<Rightarrow> vertex_array" where
  "setConstantAttributes s =
     fold setConstantAttributes_at [0..<MAX_ATTRIBUTES (vertexArrayObject s)] s"

subsection \<open>Draw parameters\<close>

text \<open>
  \<open>const {divisor} = accessor\<close>: a TypeError on \<open>null\<close> and \<open>undefined\<close>, the field of an
  accessor object, \<open>undefined\<close> on any other value.
\<close>

fun destructure_divisor :: "jsval \<Rightarrow> js_error + jsnum option" where
  "destructure_divisor JUndefined = Inl TypeError"
| "destructure_divisor JNull = Inl TypeError"
| "destructure_divisor (JObject a) = Inr (divisor a)"
| "destructure_divisor v = Inr None"

definition updateDrawParamsForLocation ::
  "env \<Rightarrow> vertex_array \<Rightarrow> draw_params \<Rightarrow> nat \<Rightarrow> js_error + draw_params" where
  "updateDrawParamsForLocation env s dp location =
     (let val = array_get (values_arr s) location;
          accessor = array_get (accessors s) location
      in if \<not> truthy val then Inr dp
         else
           (case destructure_divisor accessor of
              Inl e \<Rightarrow> Inl e
            | Inr d \<Rightarrow>
                (let instanced = field_gt_zero d;
                     dp1 = dp\<lparr>isInstanced := isInstanced dp \<or> instanced\<rparr>
                 in if instanceof_Buffer val
                    then
                      (if instanced
                       then Inr (dp1\<lparr>instanceCount :=
                                   Math_min (instanceCount dp1)
                                     (getVertexCount env (the_Buffer val) accessor)\<rparr>)
                       else Inr (dp1\<lparr>vertexCount :=
                                   Math_min (vertexCount dp1)
                                     (getVertexCount env (the_Buffer val) accessor)\<rparr>))
                    else Inr dp1)))"

fun updateDrawParams_loop ::
  "env \<Rightarrow> vertex_array \<Rightarrow> nat list \<Rightarrow> draw_params \<Rightarrow> js_error + draw_params" where
  "updateDrawParams_loop env s [] dp = Inr dp"
| "updateDrawParams_loop env s (location # rest) dp =
     (case updateDrawParamsForLocation env s dp location of
        Inl e \<Rightarrow> Inl e
      | Inr dp1 \<Rightarrow> updateDrawParams_loop env s rest dp1)"

definition initial_drawParams :: draw_params where
  "initial_drawParams =
     \<lparr>isIndexed = False, isInstanced = False, indexCount = PosInfinity,
      vertexCount = PosInfinity, instanceCount = PosInfinity,
      elementCount = None, indexType = None\<rparr>"

definition updateDrawParams :: "env \<Rightarrow> vertex_array \<Rightarrow> js_error + draw_params" where
  "updateDrawParams env s =
     (case updateDrawParams_loop env s [0..<MAX_ATTRIBUTES (vertexArrayObject s)]
             initial_drawParams of
        Inl e \<Rightarrow> Inl e
      | Inr dp1 \<Rightarrow>
          (let dp2 = (case elements s of
                        None \<Rightarrow> dp1
                      | Some el \<Rightarrow>
                          dp1\<lparr>elementCount :=
                                 Some (getElementCount env el (accessor_value (buf_accessor el))),
                              isIndexed := True,
                              indexType := Some (buf_type el)\<rparr>)
           in if \<not> Number_isFinite (vertexCount dp2) then Inl AssertionFailed
              else
                (let dp3 = (if indexCount dp2 = PosInfinity
                            then dp2\<lparr>indexCount := Fin 0\<rparr> else dp2);
                     dp4 = (if instanceCount dp3 = PosInfinity
                            then dp3\<lparr>instanceCount := Fin 0\<rparr> else dp3)
                 in Inr dp4)))"

definition getDrawParams :: "env \<Rightarrow> jsval \<Rightarrow> vertex_array \<Rightarrow> draw_params outcome" where
  "getDrawParams env vertexCount_arg s =
     (case (case drawParams s of
              Some dp \<Rightarrow> Inr dp
            | None \<Rightarrow> updateDrawParams env s) of
        Inl e \<Rightarrow> (Inl e, s)
      | Inr dp \<Rightarrow>
          (let s1 = s\<lparr>drawParams := Some dp\<rparr>;
               len = (if truthy vertexCount_arg then vertexCount_arg
                      else JNumber (vertexCount dp))
           in (Inr dp, updateAttributeZeroBuffer env len s1)))"

subsection \<open>Binding\<close>

definition unbindBuffers_at :: "nat \<Rightarrow> vertex_array \<Rightarrow> vertex_array" where
  "unbindBuffers_at location s =
     (if instanceof_Buffer (array_get (values_arr s) location)
      then emit (GL_vertexAttribPointer location 1 GL_FLOAT False 0 0)
             (emit (GL_bindBuffer GL_ARRAY_BUFFER (map_option handle (buffer s)))
                (emit (GL_disableVertexAttribArray location) s))
      else s)"

definition unbindBuffers :: "env \<Rightarrow> vertex_array \<Rightarrow> vertex_array" where
  "unbindBuffers env s =
     (let s1 = buffer_or_new env 4 (emit VAO_bind_enter s);
          s2 = fold unbindBuffers_at [0..<MAX_ATTRIBUTES (vertexArrayObject s1)] s1
      in emit VAO_bind_leave s2)"

fun bindBuffers_loop :: "env \<Rightarrow> nat list \<Rightarrow> vertex_array \<Rightarrow> unit outcome" where
  "bindBuffers_loop env [] s = (Inr (), s)"
| "bindBuffers_loop env (location # rest) s =
     (let buf = array_get (values_arr s) location
      in if instanceof_Buffer buf
         then (case setBuffer env (Location (Fin (real location))) (the_Buffer buf) JUndefined s of
                 (Inl e, s1) \<Rightarrow> (Inl e, s1)
               | (Inr u, s1) \<Rightarrow> bindBuffers_loop env rest s1)
         else bindBuffers_loop env rest s)"

definition bindBuffers :: "env \<Rightarrow> vertex_array \<Rightarrow> unit outcome" where
  "bindBuffers env s =
     (case bindBuffers_loop env [0..<MAX_ATTRIBUTES (vertexArrayObject s)]
             (emit VAO_bind_enter s) of
        (Inl e, s1) \<Rightarrow> (Inl e, s1)
      | (Inr u, s1) \<Rightarrow> (Inr (), emit VAO_bind_leave s1))"

text \<open>
  \<open>this.hasVertexArrays\<close> is read by \<open>bindForUse\<close> and assigned nowhere: the constructor
  does not create it and seals the object, so the read gives \<open>undefined\<close>.
\<close>

definition hasVertexArrays :: "vertex_array \<Rightarrow> jsval" where
  "hasVertexArrays s = JUndefined"

text \<open>
  The steps of \<open>bindForUse\<close> before \<open>this.vertexArrayObject.bind()\<close> and after
  \<open>this.vertexArrayObject.unbind()\<close>. The function \<open>func\<close> is any JavaScript function:
  it may change the state of the VertexArray, and it returns a value or throws.
\<close>

definition bindForUse_before :: "env \<Rightarrow> jsnum \<Rightarrow> vertex_array \<Rightarrow> unit outcome" where
  "bindForUse_before env len s =
     (let s1 = (if Number_isFinite len then updateAttributeZeroBuffer env (JNumber len) s else s);
          s2 = setConstantAttributes s1
      in if \<not> truthy (hasVertexArrays s2)
         then bindBuffers env
                (case elements s2 of
                   Some el \<Rightarrow> setElementBuffer (Some el) JUndefined s2
                 | None \<Rightarrow> s2)
         else (Inr (), s2))"

definition bindForUse_after :: "env \<Rightarrow> vertex_array \<Rightarrow> vertex_array" where
  "bindForUse_after env s =
     (if \<not> truthy (hasVertexArrays s) then unbindBuffers env s else s)"

definition bindForUse ::
  "env \<Rightarrow> jsnum \<Rightarrow> (vertex_array \<Rightarrow> 'v outcome) \<Rightarrow> vertex_array \<Rightarrow> 'v outcome" where
  "bindForUse env len func s =
     (case bindForUse_before env len s of
        (Inl e, s1) \<Rightarrow> (Inl e, s1)
      | (Inr u, s1) \<Rightarrow>
          (case func (emit VAO_bind s1) of
             (Inl e, s2) \<Rightarrow> (Inl e, s2)
           | (Inr v, s2) \<Rightarrow> (Inr v, bindForUse_after env (emit VAO_unbind s2))))"



section \<open>Notions used to state the properties\<close>

text \<open>
  A name or location resolves to an attribute location \<open>>= 0\<close> when
  \<open>_getAttributeIndex\<close> gives a finite number that is not negative.
\<close>

definition resolves_to_location :: "env \<Rightarrow> vertex_array \<Rightarrow> locationOrName \<Rightarrow> bool" where
  "resolves_to_location env s l \<longleftrightarrow>
     Number_isFinite (getAttributeIndex env s l) \<and> ge_zero (getAttributeIndex env s l)"

text \<open>
  A store at \<open>location\<close> lengthens an array of length \<open>n\<close> exactly when the location is
  an array index at or beyond \<open>n\<close>.
\<close>

fun beyond :: "jsnum \<Rightarrow> nat \<Rightarrow> bool" where
  "beyond (Fin r) n = (is_array_index r \<and> real n \<le> r)"
| "beyond k n = False"

text \<open>
  The attribute at a location of the table: it is set when its value is truthy, it is
  instanced when the divisor of its accessor is \<open>> 0\<close>, and when its value is a buffer
  its count is \<open>buffer.getVertexCount(accessor)\<close>.
\<close>

definition is_set :: "vertex_array \<Rightarrow> nat \<Rightarrow> bool" where
  "is_set s i \<longleftrightarrow> truthy (array_get (values_arr s) i)"

definition is_buffer :: "vertex_array \<Rightarrow> nat \<Rightarrow> bool" where
  "is_buffer s i \<longleftrightarrow> instanceof_Buffer (array_get (values_arr s) i)"

definition divisor_at :: "vertex_array \<Rightarrow> nat \<Rightarrow> jsnum option" where
  "divisor_at s i = (case array_get (accessors s) i of JObject a \<Rightarrow> divisor a | _ \<Rightarrow> None)"

definition instanced_at :: "vertex_array \<Rightarrow> nat \<Rightarrow> bool" where
  "instanced_at s i \<longleftrightarrow> field_gt_zero (divisor_at s i)"

definition count_at :: "env \<Rightarrow> vertex_array \<Rightarrow> nat \<Rightarrow> jsnum" where
  "count_at env s i =
     getVertexCount env (the_Buffer (array_get (values_arr s) i)) (array_get (accessors s) i)"

definition vertex_buffer_locations :: "vertex_array \<Rightarrow> nat list" where
  "vertex_buffer_locations s =
     filter (\<lambda>i. is_buffer s i \<and> \<not> instanced_at s i)
       [0..<MAX_ATTRIBUTES (vertexArrayObject s)]"

definition instance_buffer_locations :: "vertex_array \<Rightarrow> nat list" where
  "instance_buffer_locations s =
     filter (\<lambda>i. is_buffer s i \<and> instanced_at s i)
       [0..<MAX_ATTRIBUTES (vertexArrayObject s)]"

text \<open>
  The two tables are paired when every set value of the table has an accessor object
  (not \<open>null\<close>, not \<open>undefined\<close>) at its location, as \<open>setBuffer\<close> and \<open>setConstant\<close>
  store them.
\<close>

definition paired_at :: "vertex_array \<Rightarrow> nat \<Rightarrow> bool" where
  "paired_at s i \<longleftrightarrow>
     (if is_set s i
      then array_get (accessors s) i \<noteq> JNull \<and> array_get (accessors s) i \<noteq> JUndefined
      else True)"

definition paired :: "vertex_array \<Rightarrow> bool" where
  "paired s \<longleftrightarrow> list_all (paired_at s) [0..<MAX_ATTRIBUTES (vertexArrayObject s)]"

text \<open>The cached draw parameters are current: none are cached, or those of the tables.\<close>

definition cache_current :: "env \<Rightarrow> vertex_array \<Rightarrow> bool" where
  "cache_current env s \<longleftrightarrow>
     (case drawParams s of
        None \<Rightarrow> True
      | Some dp \<Rightarrow> updateDrawParams env s = Inr dp)"

text \<open>The least of a list of finite numbers.\<close>

fun the_Fin :: "jsnum \<Rightarrow> real" where
  "the_Fin (Fin r) = r"
| "the_Fin k = 0"

definition minimum :: "jsnum list \<Rightarrow> jsnum" where
  "minimum xs = Fin (Min (set (map the_Fin xs)))"

text \<open>
  A location stays within the table when a store there does not lengthen an array of
  \<open>MAX_ATTRIBUTES\<close> elements; the table has its size when both arrays have exactly
  that length.
\<close>

definition within_table :: "env \<Rightarrow> vertex_array \<Rightarrow> locationOrName \<Rightarrow> bool" where
  "within_table env s l \<longleftrightarrow>
     \<not> beyond (getAttributeIndex env s l) (MAX_ATTRIBUTES (vertexArrayObject s))"

definition table_sized :: "vertex_array \<Rightarrow> bool" where
  "table_sized s \<longleftrightarrow>
     array_length (values_arr s) = MAX_ATTRIBUTES (vertexArrayObject s)
     \<and> array_length (accessors s) = MAX_ATTRIBUTES (vertexArrayObject s)"





text \<open>
  The two arrays are consistent when they have one length, at least \<open>MAX_ATTRIBUTES\<close>,
  and every truthy element of the values has an accessor object at its index.
\<close>

definition tables_consistent :: "vertex_array \<Rightarrow> bool" where
  "tables_consistent s \<longleftrightarrow>
     length (items (values_arr s)) = length (items (accessors s))
     \<and> MAX_ATTRIBUTES (vertexArrayObject s) \<le> length (items (values_arr s))
     \<and> (\<forall>i<length (items (values_arr s)).
           truthy (items (values_arr s) ! i) \<longrightarrow>
           (\<exists>acc. items (accessors s) ! i = JObject acc))"

text \<open>What holds of every state that the methods produce.\<close>

definition produced :: "env \<Rightarrow> vertex_array \<Rightarrow> bool" where
  "produced env s \<longleftrightarrow> tables_consistent s \<and> cache_current env s"

text \<open>
  The draw parameters of the tables, read off the two arrays and the element buffer:
  \<open>Math.min\<close> of the counts of the buffers that are not instanced, and of those that
  are. There are none when a set value of the table lacks its accessor (a TypeError)
  or when the vertex count is not finite (the assertion).
\<close>

definition Math_min_list :: "jsnum list \<Rightarrow> jsnum" where
  "Math_min_list xs = foldl Math_min PosInfinity xs"

definition drawParams_of_tables :: "env \<Rightarrow> vertex_array \<Rightarrow> js_error + draw_params" where
  "drawParams_of_tables env s =
     (if \<not> paired s then Inl TypeError
      else if \<not> Number_isFinite
                  (Math_min_list (map (count_at env s) (vertex_buffer_locations s)))
      then Inl AssertionFailed
      else
        Inr \<lparr>isIndexed = (elements s \<noteq> None),
             isInstanced = list_ex (\<lambda>i. is_set s i \<and> instanced_at s i)
                             [0..<MAX_ATTRIBUTES (vertexArrayObject s)],
             indexCount = Fin 0,
             vertexCount = Math_min_list (map (count_at env s) (vertex_buffer_locations s)),
             instanceCount =
               (if Math_min_list (map (count_at env s) (instance_buffer_locations s))
                   = PosInfinity
                then Fin 0
                else Math_min_list (map (count_at env s) (instance_buffer_locations s))),
             elementCount =
               map_option (\<lambda>el. getElementCount env el (accessor_value (buf_accessor el)))
                 (elements s),
             indexType = map_option buf_type (elements s)\<rparr>)"

text \<open>
  A run from one state to another is without binding when the trace has only grown, by
  events that are neither \<open>vertexArrayObject.bind()\<close> nor \<open>unbind()\<close>.
\<close>

definition without_binding :: "event list \<Rightarrow> bool" where
  "without_binding evs \<longleftrightarrow> VAO_bind \<notin> set evs \<and> VAO_unbind \<notin> set evs"

definition runs_without_binding :: "vertex_array \<Rightarrow> vertex_array \<Rightarrow> bool" where
  "runs_without_binding s s1 \<longleftrightarrow>
     take (length (trace s)) (trace s1) = trace s
     \<and> without_binding (drop (length (trace s)) (trace s1))"





section \<open>A concrete setting for examples\<close>

text \<open>
  One instance of the collaborators, on which the theorems below are evaluated: no
  vertex-array-object extension (the default array is used), 16 attribute locations,
  accessors that are merged field by field, and three buffers told apart by their
  handles. \<open>example_Number\<close> agrees with \<open>Number\<close> on the strings used here: names that
  are no numerals, on which \<open>Number\<close> is NaN.
\<close>

definition GL_UNSIGNED_SHORT :: nat where "GL_UNSIGNED_SHORT = 5123"

fun assign_field :: "jsnum option \<Rightarrow> jsnum option \<Rightarrow> jsnum option" where
  "assign_field x None = x"
| "assign_field x (Some y) = Some y"

fun assign_options :: "accessor \<Rightarrow> jsval \<Rightarrow> accessor" where
  "assign_options a (JObject b) =
     \<lparr>acc_size = assign_field (acc_size a) (acc_size b),
      acc_type = assign_field (acc_type a) (acc_type b),
      divisor = assign_field (divisor a) (divisor b)\<rparr>"
| "assign_options a v = a"

fun to_number :: "jsval \<Rightarrow> jsnum" where
  "to_number (JNumber n) = n"
| "to_number v = NaN"

fun example_normalize :: "jsval \<Rightarrow> accessor \<Rightarrow> jsval" where
  "example_normalize (JArray xs) a = JTypedArray (map to_number xs)"
| "example_normalize v a = v"

definition example_Number :: "string \<Rightarrow> jsnum" where
  "example_Number str = NaN"

definition example_accessor :: accessor where
  "example_accessor =
     \<lparr>acc_size = Some (Fin 1), acc_type = Some (Fin 5126), divisor = Some (Fin 0)\<rparr>"

definition example_positions :: gl_buffer where
  "example_positions =
     \<lparr>handle = 1, target = GL_ARRAY_BUFFER, buf_type = GL_FLOAT,
      buf_accessor = Some \<lparr>acc_size = Some (Fin 3), acc_type = Some (Fin 5126), divisor = None\<rparr>\<rparr>"

definition example_offsets :: gl_buffer where
  "example_offsets =
     \<lparr>handle = 2, target = GL_ARRAY_BUFFER, buf_type = GL_FLOAT,
      buf_accessor =
        Some \<lparr>acc_size = Some (Fin 2), acc_type = Some (Fin 5126), divisor = Some (Fin 1)\<rparr>\<rparr>"

definition example_indices :: gl_buffer where
  "example_indices =
     \<lparr>handle = 3, target = GL_ELEMENT_ARRAY_BUFFER, buf_type = GL_UNSIGNED_SHORT,
      buf_accessor = None\<rparr>"

definition example_env :: env where
  "example_env =
     \<lparr>Number_of_string = example_Number,
      new_Accessor = example_accessor,
      getOptions = (\<lambda>a v a1 a2. assign_options (assign_options a a1) a2),
      getVertexCount = (\<lambda>b a. if handle b = 1 then Fin 4 else if handle b = 2 then Fin 10 else Fin 0),
      getElementCount = (\<lambda>b a. Fin 6),
      new_Buffer = (\<lambda>g sz. \<lparr>handle = 0, target = GL_ARRAY_BUFFER, buf_type = GL_FLOAT,
                              buf_accessor = None\<rparr>),
      isSupported = (\<lambda>g. False),
      new_VertexArrayObject = (\<lambda>g. \<lparr>isDefaultArray = False, MAX_ATTRIBUTES = 16\<rparr>),
      getDefaultArray = (\<lambda>g. \<lparr>isDefaultArray = True, MAX_ATTRIBUTES = 16\<rparr>),
      normalizeConstantArrayValue = example_normalize\<rparr>"

definition no_props :: props where
  "no_props =
     \<lparr>p_id = None, p_program = None, p_configuration = None, p_attributes = None,
      p_elements = None, p_bindOnUse = None\<rparr>"

text \<open>The state of \<open>new VertexArray(gl)\<close>.\<close>

definition example_state :: vertex_array where
  "example_state = snd (constructor example_env (WebGLContext 0) no_props)"

text \<open>
  \<open>example_scene\<close>: positions at location 0, per-instance offsets at location 1 and an
  index buffer. \<open>example_beyond\<close>: a buffer stored at location 16, one past the table.
\<close>

definition example_scene :: vertex_array where
  "example_scene =
     setElementBuffer (Some example_indices) JUndefined
       (snd (setBuffer example_env (Location (Fin 1)) example_offsets JUndefined
          (snd (setBuffer example_env (Location (Fin 0)) example_positions JUndefined
             example_state))))"

definition example_beyond :: vertex_array where
  "example_beyond =
     snd (setBuffer example_env (Location (Fin 16)) example_positions JUndefined example_state)"


text \<open>
  A configuration that knows two attributes by name, and props that install it and
  set three attributes: a buffer, a buffer with an accessor, and a constant.
\<close>

fun example_getLocation :: "locationOrName \<Rightarrow> jsnum" where
  "example_getLocation (Name n) =
     (if n = ''positions'' then Fin 0 else if n = ''offsets'' then Fin 1
      else if n = ''colors'' then Fin 2 else Fin (- 1))"
| "example_getLocation (Location k) = k"

definition example_configuration :: configuration where
  "example_configuration =
     \<lparr>getLocation = example_getLocation, getAttributeInfo = (\<lambda>l. None)\<rparr>"

definition example_attributes :: "(string \<times> jsval) list" where
  "example_attributes =
     [(''positions'', JBuffer example_positions),
      (''offsets'', JArray [JBuffer example_offsets,
                            JObject \<lparr>acc_size = None, acc_type = None, divisor = Some (Fin 1)\<rparr>]),
      (''colors'', JArray [JNumber (Fin 1), JNumber (Fin 0), JNumber (Fin 0), JNumber (Fin 1)])]"

definition example_props :: props where
  "example_props =
     \<lparr>p_id = None, p_program = None, p_configuration = Some (Some example_configuration),
      p_attributes = Some example_attributes, p_elements = None, p_bindOnUse = None\<rparr>"

text \<open>
  \<open>example_drawn\<close>: the scene after \<open>getDrawParams()\<close>, with its draw parameters cached.
  \<open>example_configured\<close>: the state of \<open>new VertexArray(gl, props)\<close> with the example
  props.
\<close>

definition example_drawn :: vertex_array where
  "example_drawn = snd (getDrawParams example_env JUndefined example_scene)"

definition example_configured :: vertex_array where
  "example_configured = snd (constructor example_env (WebGLContext 0) example_props)"




definition example_plain :: gl_buffer where
  "example_plain =
     \<lparr>handle = 4, target = GL_ARRAY_BUFFER, buf_type = GL_FLOAT, buf_accessor = None\<rparr>"



text \<open>\<open>example_cleared\<close>: the scene after \<open>reset()\<close>.\<close>

definition example_cleared :: vertex_array where
  "example_cleared = reset example_scene"

text \<open>
  \<open>example_replaced\<close>: the drawn scene after \<open>setBuffer(0, buffer)\<close> with a buffer that
  reports no vertices.
\<close>

definition example_replaced :: vertex_array where
  "example_replaced =
     snd (setBuffer example_env (Location (Fin 0)) example_plain JUndefined example_drawn)"

section \<open>Which fields each method leaves alone\<close>

lemma emit_fields [simp]:
  "va_gl (emit e s) = va_gl s"
  "configuration (emit e s) = configuration s"
  "elements (emit e s) = elements s"
  "values_arr (emit e s) = values_arr s"
  "accessors (emit e s) = accessors s"
  "unused (emit e s) = unused s"
  "drawParams (emit e s) = drawParams s"
  "buffer (emit e s) = buffer s"
  "vertexArrayObject (emit e s) = vertexArrayObject s"
  "bindOnUse (emit e s) = bindOnUse s"
  "trace (emit e s) = trace s @ [e]"
  by (simp_all add: emit_def)

lemma setElementBuffer_fields [simp]:
  "va_gl (setElementBuffer b a s) = va_gl s"
  "configuration (setElementBuffer b a s) = configuration s"
  "elements (setElementBuffer b a s) = b"
  "values_arr (setElementBuffer b a s) = values_arr s"
  "accessors (setElementBuffer b a s) = accessors s"
  "unused (setElementBuffer b a s) = unused s"
  "drawParams (setElementBuffer b a s) = None"
  "buffer (setElementBuffer b a s) = buffer s"
  "vertexArrayObject (setElementBuffer b a s) = vertexArrayObject s"
  "bindOnUse (setElementBuffer b a s) = bindOnUse s"
  by (simp_all add: setElementBuffer_def clearDrawParams_def Let_def)

lemma setElements_fields [simp]:
  "va_gl (setElements b a s) = va_gl s"
  "configuration (setElements b a s) = configuration s"
  "elements (setElements b a s) = b"
  "values_arr (setElements b a s) = values_arr s"
  "accessors (setElements b a s) = accessors s"
  "unused (setElements b a s) = unused s"
  "drawParams (setElements b a s) = None"
  "buffer (setElements b a s) = buffer s"
  "vertexArrayObject (setElements b a s) = vertexArrayObject s"
  "bindOnUse (setElements b a s) = bindOnUse s"
  by (simp_all add: setElements_def)

lemma resolve_frame:
  assumes "resolveLocationAndAccessor env l v a1 a2 s = (r, s1)"
  shows "va_gl s1 = va_gl s \<and> configuration s1 = configuration s \<and> elements s1 = elements s
       \<and> values_arr s1 = values_arr s \<and> accessors s1 = accessors s
       \<and> drawParams s1 = drawParams s \<and> buffer s1 = buffer s
       \<and> vertexArrayObject s1 = vertexArrayObject s \<and> bindOnUse s1 = bindOnUse s"
  using assms
  by (auto simp: resolveLocationAndAccessor_def Let_def split: if_splits)

lemma resolve_location:
  assumes "resolveLocationAndAccessor env l v a1 a2 s = (Inr (Some (loc, acc)), s1)"
  shows "loc = getAttributeIndex env s l \<and> Number_isFinite loc \<and> s1 = s"
  using assms
  by (auto simp: resolveLocationAndAccessor_def Let_def split: if_splits)

lemma setBuffer_frame:
  assumes "setBuffer env l b a s = (r, s1)"
  shows "va_gl s1 = va_gl s \<and> configuration s1 = configuration s \<and> buffer s1 = buffer s
       \<and> vertexArrayObject s1 = vertexArrayObject s \<and> bindOnUse s1 = bindOnUse s"
proof (cases "target b = GL_ELEMENT_ARRAY_BUFFER")
  case True
  with assms show ?thesis by (auto simp: setBuffer_def)
next
  case False
  obtain r0 s0 where res: "resolveLocationAndAccessor env l (JBuffer b)
      (accessor_value (buf_accessor b)) (default_object a) s = (r0, s0)"
    by (cases "resolveLocationAndAccessor env l (JBuffer b)
      (accessor_value (buf_accessor b)) (default_object a) s")
  from resolve_frame [OF res] assms False res show ?thesis
    by (auto simp: setBuffer_def clearDrawParams_def Let_def
        split: sum.splits option.splits if_splits prod.splits)
qed

lemma setConstant_frame:
  assumes "setConstant env l v a s = (r, s1)"
  shows "va_gl s1 = va_gl s \<and> configuration s1 = configuration s \<and> buffer s1 = buffer s
       \<and> vertexArrayObject s1 = vertexArrayObject s \<and> bindOnUse s1 = bindOnUse s
       \<and> elements s1 = elements s"
proof -
  obtain r0 s0 where res: "resolveLocationAndAccessor env l v
      (JObject empty_object) (default_object a) s = (r0, s0)"
    by (cases "resolveLocationAndAccessor env l v
      (JObject empty_object) (default_object a) s")
  from resolve_frame [OF res] assms res show ?thesis
    by (auto simp: setConstant_def clearDrawParams_def Let_def
        split: sum.splits option.splits if_splits prod.splits)
qed

lemma setAttributes_loop_frame:
  "setAttributes_loop env attrs s = (r, s1) \<Longrightarrow>
     va_gl s1 = va_gl s \<and> configuration s1 = configuration s \<and> buffer s1 = buffer s
       \<and> vertexArrayObject s1 = vertexArrayObject s \<and> bindOnUse s1 = bindOnUse s"
proof (induction attrs arbitrary: s)
  case Nil
  then show ?case by simp
next
  case (Cons kv rest)
  obtain k v where kv: "kv = (k, v)" by (cases kv)
  show ?case using Cons.prems Cons.IH unfolding kv
    by (auto split: if_splits sum.splits prod.splits dest!: setBuffer_frame setConstant_frame)
qed

lemma setAttributes_frame:
  assumes "setAttributes env attrs s = (r, s1)"
  shows "va_gl s1 = va_gl s \<and> configuration s1 = configuration s \<and> buffer s1 = buffer s
       \<and> vertexArrayObject s1 = vertexArrayObject s \<and> bindOnUse s1 = bindOnUse s"
proof -
  obtain r0 s0 where loop: "setAttributes_loop env attrs (emit VAO_bind_enter s) = (r0, s0)"
    by (cases "setAttributes_loop env attrs (emit VAO_bind_enter s)")
  from setAttributes_loop_frame [OF loop] assms loop show ?thesis
    by (auto simp: setAttributes_def split: sum.splits)
qed

text \<open>The state in which \<open>setProps\<close> runs \<open>setAttributes\<close>: only the configuration differs.\<close>

lemma setProps_frame:
  assumes "setProps env props s = (r, s1)"
  shows "va_gl s1 = va_gl s \<and> buffer s1 = buffer s
       \<and> vertexArrayObject s1 = vertexArrayObject s \<and> bindOnUse s1 = bindOnUse s"
proof (cases "p_attributes props")
  case None
  with assms show ?thesis
    by (auto simp: setProps_def Let_def split: option.splits)
next
  case (Some attrs)
  define sp where "sp = (case p_program props of
                  None \<Rightarrow> s
                | Some None \<Rightarrow> s\<lparr>configuration := None\<rparr>
                | Some (Some prog) \<Rightarrow> s\<lparr>configuration := program_configuration prog\<rparr>)"
  define sc where "sc = (case p_configuration props of
                  None \<Rightarrow> sp
                | Some c \<Rightarrow> sp\<lparr>configuration := c\<rparr>)"
  have sc: "va_gl sc = va_gl s \<and> buffer sc = buffer s
       \<and> vertexArrayObject sc = vertexArrayObject s \<and> bindOnUse sc = bindOnUse s"
    by (simp add: sc_def sp_def split: option.splits)
  obtain r0 s0 where sa: "setAttributes env attrs sc = (r0, s0)"
    by (cases "setAttributes env attrs sc")
  from assms Some sa have "s1 = s0 \<or> (\<exists>eb. s1 = setElements eb JUndefined s0)"
    by (auto simp: setProps_def Let_def sc_def sp_def split: option.splits sum.splits)
  with setAttributes_frame [OF sa] sc show ?thesis by auto
qed

section \<open>The loop over the attributes\<close>

text \<open>An invariant of the calls made by the loop of \<open>setAttributes\<close> holds after the loop.\<close>

lemma setAttributes_loop_invariant:
  assumes "P s"
    and "\<And>k b a s0. k \<in> fst ` set attrs \<Longrightarrow> P s0 \<Longrightarrow> P (snd (setBuffer env (Name k) b a s0))"
    and "\<And>k v s0. k \<in> fst ` set attrs \<Longrightarrow> P s0
           \<Longrightarrow> P (snd (setConstant env (Name k) v JUndefined s0))"
  shows "P (snd (setAttributes_loop env attrs s))"
  using assms
proof (induction attrs arbitrary: s)
  case Nil
  then show ?case by simp
next
  case (Cons kv rest)
  obtain k v where kv: "kv = (k, v)" by (cases kv)
  have rest: "P (snd (setAttributes_loop env rest s1))" if "P s1" for s1
    using that Cons.prems(2,3) by (intro Cons.IH) auto
  have k: "k \<in> fst ` set (kv # rest)" by (simp add: kv)
  consider (buf) "instanceof_Buffer v"
    | (pair) "\<not> instanceof_Buffer v" "Array_isArray v \<and> length (the_Array v) \<noteq> 0
              \<and> instanceof_Buffer (element_at (the_Array v) 0)"
    | (const) "\<not> instanceof_Buffer v" "\<not> (Array_isArray v \<and> length (the_Array v) \<noteq> 0
              \<and> instanceof_Buffer (element_at (the_Array v) 0))"
        "ArrayBuffer_isView v \<or> Array_isArray v"
    | (other) "\<not> instanceof_Buffer v" "\<not> (Array_isArray v \<and> length (the_Array v) \<noteq> 0
              \<and> instanceof_Buffer (element_at (the_Array v) 0))"
        "\<not> (ArrayBuffer_isView v \<or> Array_isArray v)"
    by blast
  then show ?case
  proof cases
    case buf
    obtain r s1 where sb: "setBuffer env (Name k) (the_Buffer v) JUndefined s = (r, s1)"
      by (cases "setBuffer env (Name k) (the_Buffer v) JUndefined s")
    from Cons.prems(2) [OF k Cons.prems(1), of "the_Buffer v" JUndefined] sb
    have "P s1" by simp
    with rest [of s1] sb buf show ?thesis by (cases r) (simp_all add: kv)
  next
    case pair
    obtain r s1 where sb: "setBuffer env (Name k) (the_Buffer (element_at (the_Array v) 0))
                   (element_at (the_Array v) 1) s = (r, s1)"
      by (cases "setBuffer env (Name k) (the_Buffer (element_at (the_Array v) 0))
                   (element_at (the_Array v) 1) s")
    from Cons.prems(2) [OF k Cons.prems(1), of "the_Buffer (element_at (the_Array v) 0)"
        "element_at (the_Array v) 1"] sb
    have "P s1" by simp
    with rest [of s1] sb pair show ?thesis by (cases r) (simp_all add: kv)
  next
    case const
    obtain r s1 where sc: "setConstant env (Name k) v JUndefined s = (r, s1)"
      by (cases "setConstant env (Name k) v JUndefined s")
    from Cons.prems(3) [OF k Cons.prems(1), of v] sc
    have "P s1" by simp
    with rest [of s1] sc const show ?thesis by (cases r) (auto simp: kv)
  next
    case other
    with Cons.prems(1) show ?thesis by (simp add: kv)
  qed
qed


section \<open>The lengths of the two arrays\<close>

lemma array_length_set:
  "array_length (array_set a k v) =
     (if beyond k (array_length a) then nat \<lfloor>the_Fin k\<rfloor> + 1 else array_length a)"
proof (cases k)
  case (Fin r)
  show ?thesis
  proof (cases "is_array_index r")
    case True
    then have r: "0 \<le> r" "r = real_of_int \<lfloor>r\<rfloor>" by (simp_all add: is_array_index_def)
    then have "real (nat \<lfloor>r\<rfloor>) = r" by (metis of_nat_nat zero_le_floor)
    then have "(real (length (items a)) \<le> r) = (length (items a) \<le> nat \<lfloor>r\<rfloor>)"
      by (metis of_nat_le_iff)
    with True show ?thesis
      by (auto simp: Fin array_length_def store_item_def)
  next
    case False
    then show ?thesis by (simp add: Fin array_length_def)
  qed
qed (simp_all add: array_length_def)



lemma setBuffer_tables:
  assumes "setBuffer env l buf a s = (r, s1)"
  shows "(values_arr s1 = values_arr s \<and> accessors s1 = accessors s)
       \<or> (\<exists>acc. values_arr s1 = array_set (values_arr s) (getAttributeIndex env s l) (JBuffer buf)
              \<and> accessors s1 = array_set (accessors s) (getAttributeIndex env s l) (JObject acc))"
proof (cases "target buf = GL_ELEMENT_ARRAY_BUFFER")
  case True
  with assms show ?thesis by (auto simp: setBuffer_def)
next
  case False
  obtain r0 s0 where res: "resolveLocationAndAccessor env l (JBuffer buf)
      (accessor_value (buf_accessor buf)) (default_object a) s = (r0, s0)"
    by (cases "resolveLocationAndAccessor env l (JBuffer buf)
      (accessor_value (buf_accessor buf)) (default_object a) s")
  show ?thesis
  proof (cases r0)
    case (Inl e)
    with assms False res resolve_frame [OF res] show ?thesis by (simp add: setBuffer_def)
  next
    case (Inr x)
    show ?thesis
    proof (cases x)
      case None
      with Inr assms False res resolve_frame [OF res] show ?thesis by (simp add: setBuffer_def)
    next
      case (Some p)
      obtain loc acc where p: "p = (loc, acc)" by (cases p)
      from res Inr Some p have "loc = getAttributeIndex env s l" "s0 = s"
        using resolve_location by blast+
      with Inr Some p assms False res show ?thesis
        by (cases "ge_zero loc") (auto simp: setBuffer_def clearDrawParams_def Let_def)
    qed
  qed
qed


lemma setConstant_tables:
  assumes "setConstant env l v a s = (r, s1)"
  shows "(values_arr s1 = values_arr s \<and> accessors s1 = accessors s)
       \<or> (\<exists>acc. values_arr s1 = array_set (values_arr s) (getAttributeIndex env s l)
                     (normalizeConstantArrayValue env v acc)
              \<and> accessors s1 = array_set (accessors s) (getAttributeIndex env s l) (JObject acc))"
proof -
  obtain r0 s0 where res: "resolveLocationAndAccessor env l v
      (JObject empty_object) (default_object a) s = (r0, s0)"
    by (cases "resolveLocationAndAccessor env l v
      (JObject empty_object) (default_object a) s")
  show ?thesis
  proof (cases r0)
    case (Inl e)
    with assms res resolve_frame [OF res] show ?thesis by (simp add: setConstant_def)
  next
    case (Inr x)
    show ?thesis
    proof (cases x)
      case None
      with Inr assms res resolve_frame [OF res] show ?thesis by (simp add: setConstant_def)
    next
      case (Some p)
      obtain loc acc where p: "p = (loc, acc)" by (cases p)
      from res Inr Some p have "loc = getAttributeIndex env s l" "s0 = s"
        using resolve_location by blast+
      with Inr Some p assms res show ?thesis
        by (cases "ge_zero loc") (auto simp: setConstant_def clearDrawParams_def Let_def)
    qed
  qed
qed

lemma setBuffer_table_sized:
  assumes "table_sized s" and "within_table env s l"
  shows "table_sized (snd (setBuffer env l buf a s))"
proof -
  obtain r s1 where sb: "setBuffer env l buf a s = (r, s1)"
    by (cases "setBuffer env l buf a s")
  from setBuffer_frame [OF sb] have v: "vertexArrayObject s1 = vertexArrayObject s" by simp
  from setBuffer_tables [OF sb] assms show ?thesis
    unfolding sb snd_conv table_sized_def within_table_def v
    by (auto simp: array_length_set)
qed

lemma setConstant_table_sized:
  assumes "table_sized s" and "within_table env s l"
  shows "table_sized (snd (setConstant env l v a s))"
proof -
  obtain r s1 where sc: "setConstant env l v a s = (r, s1)"
    by (cases "setConstant env l v a s")
  from setConstant_frame [OF sc] have v: "vertexArrayObject s1 = vertexArrayObject s" by simp
  from setConstant_tables [OF sc] assms show ?thesis
    unfolding sc snd_conv table_sized_def within_table_def v
    by (auto simp: array_length_set)
qed

lemma within_table_cong:
  assumes "configuration s1 = configuration s" and "vertexArrayObject s1 = vertexArrayObject s"
  shows "within_table env s1 l = within_table env s l"
  using assms by (simp add: within_table_def getAttributeIndex_def)

lemma table_sized_emit [simp]: "table_sized (emit e s) = table_sized s"
  by (simp add: table_sized_def)

lemma table_sized_setElements [simp]: "table_sized (setElements b a s) = table_sized s"
  by (simp add: table_sized_def)

lemma setAttributes_table_sized:
  assumes "table_sized s" and "\<forall>(k, v)\<in>set attrs. within_table env s (Name k)"
  shows "table_sized (snd (setAttributes env attrs s))"
proof -
  define P where "P s0 \<longleftrightarrow> table_sized s0 \<and> configuration s0 = configuration s
      \<and> vertexArrayObject s0 = vertexArrayObject s" for s0
  have w: "within_table env s0 (Name k)" if "P s0" "k \<in> fst ` set attrs" for s0 k
    using that assms(2) by (auto simp: P_def within_table_cong [of s0 s])
  have "P (snd (setAttributes_loop env attrs (emit VAO_bind_enter s)))"
  proof (rule setAttributes_loop_invariant)
    show "P (emit VAO_bind_enter s)" using assms(1) by (simp add: P_def)
  next
    fix k b a s0
    assume k: "k \<in> fst ` set attrs" and p: "P s0"
    obtain r s1 where sb: "setBuffer env (Name k) b a s0 = (r, s1)"
      by (cases "setBuffer env (Name k) b a s0")
    from setBuffer_table_sized [of s0 env "Name k" b a] w [OF p k] p setBuffer_frame [OF sb] sb
    show "P (snd (setBuffer env (Name k) b a s0))" by (simp add: P_def)
  next
    fix k v s0
    assume k: "k \<in> fst ` set attrs" and p: "P s0"
    obtain r s1 where sc: "setConstant env (Name k) v JUndefined s0 = (r, s1)"
      by (cases "setConstant env (Name k) v JUndefined s0")
    from setConstant_table_sized [of s0 env "Name k" v JUndefined] w [OF p k] p
      setConstant_frame [OF sc] sc
    show "P (snd (setConstant env (Name k) v JUndefined s0))" by (simp add: P_def)
  qed
  then have "table_sized (snd (setAttributes_loop env attrs (emit VAO_bind_enter s)))"
    by (simp add: P_def)
  then show ?thesis
    by (cases "setAttributes_loop env attrs (emit VAO_bind_enter s)")
       (auto simp: setAttributes_def split: sum.splits)
qed

lemma setProps_table_sized:
  assumes "table_sized s"
    and "\<forall>attrs. p_attributes props = Some attrs \<longrightarrow>
           (\<forall>(k, v)\<in>set attrs. within_table env (snd (setProps env props s)) (Name k))"
  shows "table_sized (snd (setProps env props s))"
proof (cases "p_attributes props")
  case None
  with assms(1) show ?thesis
    by (auto simp: setProps_def Let_def table_sized_def split: option.splits)
next
  case (Some attrs)
  define sp where "sp = (case p_program props of
                  None \<Rightarrow> s
                | Some None \<Rightarrow> s\<lparr>configuration := None\<rparr>
                | Some (Some prog) \<Rightarrow> s\<lparr>configuration := program_configuration prog\<rparr>)"
  define sc where "sc = (case p_configuration props of
                  None \<Rightarrow> sp
                | Some c \<Rightarrow> sp\<lparr>configuration := c\<rparr>)"
  have sc: "table_sized sc" "vertexArrayObject sc = vertexArrayObject s"
    using assms(1) by (simp_all add: sc_def sp_def table_sized_def split: option.splits)
  obtain r0 s0 where sa: "setAttributes env attrs sc = (r0, s0)"
    by (cases "setAttributes env attrs sc")
  obtain r1 s1 where sq: "setProps env props s = (r1, s1)" by (cases "setProps env props s")
  from sq Some sa have s1: "s1 = s0 \<or> (\<exists>eb. s1 = setElements eb JUndefined s0)"
    by (auto simp: setProps_def Let_def sc_def sp_def split: option.splits sum.splits)
  with setAttributes_frame [OF sa] have "configuration s1 = configuration sc"
      "vertexArrayObject s1 = vertexArrayObject sc" by auto
  then have "within_table env s1 l = within_table env sc l" for l
    by (rule within_table_cong)
  with assms(2) Some sq have "\<forall>(k, v)\<in>set attrs. within_table env sc (Name k)" by simp
  from setAttributes_table_sized [OF sc(1) this] sa have "table_sized s0" by simp
  with s1 sq show ?thesis by auto
qed

lemma reset_table_sized: "table_sized (reset s)"
  by (simp add: table_sized_def reset_def Let_def array_length_def new_Array_fill_def)


section \<open>What updateDrawParams computes\<close>

lemma step_eq:
  assumes "paired_at s i"
  shows "updateDrawParamsForLocation env s dp i =
     Inr (dp\<lparr>isInstanced := isInstanced dp \<or> (is_set s i \<and> instanced_at s i),
            vertexCount := (if is_buffer s i \<and> \<not> instanced_at s i
                            then Math_min (vertexCount dp) (count_at env s i)
                            else vertexCount dp),
            instanceCount := (if is_buffer s i \<and> instanced_at s i
                              then Math_min (instanceCount dp) (count_at env s i)
                              else instanceCount dp)\<rparr>)"
proof (cases "is_set s i")
  case False
  then have "\<not> is_buffer s i"
    by (cases "array_get (values_arr s) i") (auto simp: is_set_def is_buffer_def)
  with False show ?thesis
    by (simp add: updateDrawParamsForLocation_def is_set_def Let_def)
next
  case True
  with assms have acc: "array_get (accessors s) i \<noteq> JNull" "array_get (accessors s) i \<noteq> JUndefined"
    by (simp_all add: paired_at_def)
  then obtain d where d: "destructure_divisor (array_get (accessors s) i) = Inr d"
      "divisor_at s i = d"
    by (cases "array_get (accessors s) i") (auto simp: divisor_at_def)
  with True show ?thesis
    by (simp add: updateDrawParamsForLocation_def is_set_def is_buffer_def instanced_at_def
        count_at_def Let_def)
qed

lemma loop_eq:
  assumes "list_all (paired_at s) locs"
  shows "updateDrawParams_loop env s locs dp =
     Inr (dp\<lparr>isInstanced := isInstanced dp \<or> (\<exists>i\<in>set locs. is_set s i \<and> instanced_at s i),
            vertexCount := foldl Math_min (vertexCount dp)
               (map (count_at env s) (filter (\<lambda>i. is_buffer s i \<and> \<not> instanced_at s i) locs)),
            instanceCount := foldl Math_min (instanceCount dp)
               (map (count_at env s) (filter (\<lambda>i. is_buffer s i \<and> instanced_at s i) locs))\<rparr>)"
  using assms
proof (induction locs arbitrary: dp)
  case Nil
  then show ?case by simp
next
  case (Cons i locs)
  then have p: "paired_at s i" and ps: "list_all (paired_at s) locs" by simp_all
  show ?case
    by (simp add: step_eq [OF p] Cons.IH [OF ps] disj_assoc)
qed

lemma Math_min_finite:
  assumes "\<forall>x\<in>set xs. Number_isFinite x"
  shows "foldl Math_min (Fin a) xs = Fin (Min (insert a (set (map the_Fin xs))))"
  using assms
proof (induction xs arbitrary: a)
  case Nil
  then show ?case by simp
next
  case (Cons x xs)
  then obtain b where b: "x = Fin b" by (cases x) auto
  have "foldl Math_min (Fin a) (x # xs) = foldl Math_min (Fin (min a b)) xs"
    by (simp add: b)
  also have "\<dots> = Fin (Min (insert (min a b) (set (map the_Fin xs))))"
    using Cons by simp
  also have "Min (insert (min a b) (set (map the_Fin xs)))
           = Min (insert a (set (map the_Fin (x # xs))))"
  proof (cases "set (map the_Fin xs) = {}")
    case True
    then show ?thesis by (simp add: b)
  next
    case False
    then show ?thesis
      by (simp add: b Min_insert min.assoc del: set_map)
  qed
  finally show ?case .
qed


lemma Math_min_list_finite:
  assumes "\<forall>x\<in>set xs. Number_isFinite x"
  shows "foldl Math_min PosInfinity xs = (if xs = [] then PosInfinity else minimum xs)"
proof (cases xs)
  case Nil
  then show ?thesis by simp
next
  case (Cons x ys)
  with assms obtain b where b: "x = Fin b" by (cases x) auto
  from assms Cons have "\<forall>y\<in>set ys. Number_isFinite y" by simp
  from Math_min_finite [OF this, of b] show ?thesis
    by (simp add: Cons b minimum_def)
qed

lemma updateDrawParams_eq:
  assumes "paired s"
  shows "updateDrawParams env s =
    (let v = foldl Math_min PosInfinity (map (count_at env s) (vertex_buffer_locations s));
         n = foldl Math_min PosInfinity (map (count_at env s) (instance_buffer_locations s))
     in if \<not> Number_isFinite v then Inl AssertionFailed
        else Inr \<lparr>isIndexed = (elements s \<noteq> None),
                  isInstanced = (\<exists>i<MAX_ATTRIBUTES (vertexArrayObject s).
                                   is_set s i \<and> instanced_at s i),
                  indexCount = Fin 0,
                  vertexCount = v,
                  instanceCount = (if n = PosInfinity then Fin 0 else n),
                  elementCount =
                    map_option (\<lambda>el. getElementCount env el (accessor_value (buf_accessor el)))
                      (elements s),
                  indexType = map_option buf_type (elements s)\<rparr>)"
proof -
  have l: "list_all (paired_at s) [0..<MAX_ATTRIBUTES (vertexArrayObject s)]"
    using assms by (simp add: paired_def)
  have ex: "(\<exists>i\<in>set [0..<MAX_ATTRIBUTES (vertexArrayObject s)]. is_set s i \<and> instanced_at s i)
        = (\<exists>i<MAX_ATTRIBUTES (vertexArrayObject s). is_set s i \<and> instanced_at s i)"
    by auto
  show ?thesis
    unfolding updateDrawParams_def loop_eq [OF l] ex
    by (cases "elements s")
       (simp_all add: initial_drawParams_def vertex_buffer_locations_def
          instance_buffer_locations_def Let_def)
qed

lemma getDrawParams_cached:
  assumes "drawParams s = Some dp"
  shows "getDrawParams env vc s =
     (Inr dp, updateAttributeZeroBuffer env (if truthy vc then vc else JNumber (vertexCount dp)) s)"
proof -
  have eq: "s\<lparr>drawParams := Some dp\<rparr> = s" using assms by (cases s) simp
  have "getDrawParams env vc s =
     (Inr dp, updateAttributeZeroBuffer env (if truthy vc then vc else JNumber (vertexCount dp))
        (s\<lparr>drawParams := Some dp\<rparr>))"
    using assms by (simp add: getDrawParams_def Let_def)
  then show ?thesis by (simp only: eq)
qed

lemma updateAttributeZeroBuffer_drawParams [simp]:
  "drawParams (updateAttributeZeroBuffer env len s) = drawParams s"
  by (simp add: updateAttributeZeroBuffer_def buffer_or_new_def Let_def split: option.splits)

lemma getDrawParams_current:
  assumes "cache_current env s" and "updateDrawParams env s = Inr dp"
  shows "\<exists>s'. getDrawParams env vc s = (Inr dp, s') \<and> drawParams s' = Some dp"
proof (cases "drawParams s")
  case None
  with assms show ?thesis by (simp add: getDrawParams_def Let_def)
next
  case (Some dp')
  with assms have "dp' = dp" by (simp add: cache_current_def)
  with Some show ?thesis by (simp add: getDrawParams_cached)
qed


section \<open>The example states, evaluated\<close>

lemma example_state_eq:
  "example_state =
     \<lparr>va_id = None, va_gl = WebGLContext 0, configuration = None, elements = None,
      values_arr = new_Array_fill 16 JNull, accessors = new_Array_fill 16 JNull,
      unused = (\<lambda>k. None), drawParams = None, buffer = None,
      vertexArrayObject = \<lparr>isDefaultArray = True, MAX_ATTRIBUTES = 16\<rparr>,
      bindOnUse = False, trace = [Stub_removed_methods]\<rparr>"
  by (simp add: example_state_def constructor_def initialize_def setProps_def reset_def
      no_props_def example_env_def Let_def)

lemma new_Array_fill_16:
  "new_Array_fill 16 v = \<lparr>items = [v, v, v, v, v, v, v, v, v, v, v, v, v, v, v, v], named = (\<lambda>k. None)\<rparr>"
  by (simp add: new_Array_fill_def eval_nat_numeral)

lemma is_array_index_examples:
  "is_array_index 0" "is_array_index 1" "is_array_index 16"
  by (simp_all add: is_array_index_def)

lemmas example_defs =
  setBuffer_def resolveLocationAndAccessor_def getAttributeIndex_def
  getAttributeInfo_of_def example_env_def example_positions_def example_offsets_def
  example_indices_def example_accessor_def
  GL_ARRAY_BUFFER_def GL_ELEMENT_ARRAY_BUFFER_def GL_FLOAT_def GL_UNSIGNED_SHORT_def
  clearDrawParams_def accessor_value_def
  default_object_def empty_object_def Let_def store_item_def is_array_index_examples
  new_Array_fill_16 setElementBuffer_def

lemma example_scene_eq:
  "example_scene =
     \<lparr>va_id = None, va_gl = WebGLContext 0, configuration = None,
      elements = Some example_indices,
      values_arr = \<lparr>items = [JBuffer example_positions, JBuffer example_offsets,
                              JNull, JNull, JNull, JNull, JNull, JNull, JNull, JNull,
                              JNull, JNull, JNull, JNull, JNull, JNull],
                     named = (\<lambda>k. None)\<rparr>,
      accessors = \<lparr>items = [JObject \<lparr>acc_size = Some (Fin 3), acc_type = Some (Fin 5126),
                                       divisor = Some (Fin 0)\<rparr>,
                             JObject \<lparr>acc_size = Some (Fin 2), acc_type = Some (Fin 5126),
                                       divisor = Some (Fin 1)\<rparr>,
                             JNull, JNull, JNull, JNull, JNull, JNull, JNull, JNull,
                             JNull, JNull, JNull, JNull, JNull, JNull],
                    named = (\<lambda>k. None)\<rparr>,
      unused = (\<lambda>k. None), drawParams = None, buffer = None,
      vertexArrayObject = \<lparr>isDefaultArray = True, MAX_ATTRIBUTES = 16\<rparr>,
      bindOnUse = False, trace = [Stub_removed_methods]\<rparr>"
  unfolding example_scene_def example_state_eq
  by (simp add: example_defs)

lemma upt_16: "[0..<16] = [0,1,2,3,4,5,6,7,8,9,10,11,12,13,14,15]"
  by (simp add: upt_conv_Cons eval_nat_numeral)

lemma example_scene_locations:
  "vertex_buffer_locations example_scene = [0]"
  "instance_buffer_locations example_scene = [1]"
  "paired example_scene"
  by (simp_all add: vertex_buffer_locations_def instance_buffer_locations_def paired_def
      paired_at_def is_set_def
      example_scene_eq upt_16 is_buffer_def instanced_at_def divisor_at_def array_get_def)

lemma example_cleared_eq:
  "example_cleared =
     \<lparr>va_id = None, va_gl = WebGLContext 0, configuration = None, elements = None,
      values_arr = \<lparr>items = [JNull, JNull, JNull, JNull, JNull, JNull, JNull, JNull,
                              JNull, JNull, JNull, JNull, JNull, JNull, JNull, JNull],
                     named = (\<lambda>k. None)\<rparr>,
      accessors = \<lparr>items = [JNull, JNull, JNull, JNull, JNull, JNull, JNull, JNull,
                             JNull, JNull, JNull, JNull, JNull, JNull, JNull, JNull],
                    named = (\<lambda>k. None)\<rparr>,
      unused = (\<lambda>k. None), drawParams = None, buffer = None,
      vertexArrayObject = \<lparr>isDefaultArray = True, MAX_ATTRIBUTES = 16\<rparr>,
      bindOnUse = False, trace = [Stub_removed_methods]\<rparr>"
  by (simp add: example_cleared_def example_scene_eq reset_def new_Array_fill_16)

lemma example_beyond_eq:
  "example_beyond =
     \<lparr>va_id = None, va_gl = WebGLContext 0, configuration = None,
      elements = None,
      values_arr = \<lparr>items = [JNull, JNull, JNull, JNull, JNull, JNull, JNull, JNull,
                              JNull, JNull, JNull, JNull, JNull, JNull, JNull, JNull,
                              JBuffer example_positions],
                     named = (\<lambda>k. None)\<rparr>,
      accessors = \<lparr>items = [JNull, JNull, JNull, JNull, JNull, JNull, JNull, JNull,
                             JNull, JNull, JNull, JNull, JNull, JNull, JNull, JNull,
                             JObject \<lparr>acc_size = Some (Fin 3), acc_type = Some (Fin 5126),
                                       divisor = Some (Fin 0)\<rparr>],
                    named = (\<lambda>k. None)\<rparr>,
      unused = (\<lambda>k. None), drawParams = None, buffer = None,
      vertexArrayObject = \<lparr>isDefaultArray = True, MAX_ATTRIBUTES = 16\<rparr>,
      bindOnUse = False, trace = [Stub_removed_methods]\<rparr>"
  unfolding example_beyond_def example_state_eq
  by (simp add: example_defs)

lemma setProps_configuration:
  assumes "p_configuration props = Some c"
  shows "configuration (snd (setProps env props s)) = c"
proof -
  define sp where "sp = (case p_program props of
                  None \<Rightarrow> s
                | Some None \<Rightarrow> s\<lparr>configuration := None\<rparr>
                | Some (Some prog) \<Rightarrow> s\<lparr>configuration := program_configuration prog\<rparr>)"
  show ?thesis
  proof (cases "p_attributes props")
    case None
    with assms show ?thesis
      by (auto simp: setProps_def Let_def split: option.splits)
  next
    case (Some attrs)
    obtain r0 s0 where sa: "setAttributes env attrs (sp\<lparr>configuration := c\<rparr>) = (r0, s0)"
      by (cases "setAttributes env attrs (sp\<lparr>configuration := c\<rparr>)")
    obtain r1 s1 where sq: "setProps env props s = (r1, s1)" by (cases "setProps env props s")
    from sq Some sa assms have "s1 = s0 \<or> (\<exists>eb. s1 = setElements eb JUndefined s0)"
      by (auto simp: setProps_def Let_def sp_def split: option.splits sum.splits)
    with setAttributes_frame [OF sa] sq show ?thesis by auto
  qed
qed

lemma constructor_initialize:
  "\<exists>s0. constructor env g opts = initialize env opts s0
     \<and> vertexArrayObject s0 =
         (if isSupported env g then new_VertexArrayObject env g else getDefaultArray env g)"
  unfolding constructor_def Let_def
  by (intro exI conjI) (rule refl, simp)

lemma example_env_fields:
  "Number_of_string example_env = example_Number"
  "new_Accessor example_env = example_accessor"
  "getOptions example_env = (\<lambda>a v a1 a2. assign_options (assign_options a a1) a2)"
  "getVertexCount example_env =
     (\<lambda>b a. if handle b = 1 then Fin 4 else if handle b = 2 then Fin 10 else Fin 0)"
  "getElementCount example_env = (\<lambda>b a. Fin 6)"
  "isSupported example_env = (\<lambda>g. False)"
  "getDefaultArray example_env = (\<lambda>g. \<lparr>isDefaultArray = True, MAX_ATTRIBUTES = 16\<rparr>)"
  "normalizeConstantArrayValue example_env = example_normalize"
  by (simp_all add: example_env_def)

lemma example_scene_updateDrawParams:
  "updateDrawParams example_env example_scene =
     Inr \<lparr>isIndexed = True, isInstanced = True, indexCount = Fin 0, vertexCount = Fin 4,
          instanceCount = Fin 10, elementCount = Some (Fin 6),
          indexType = Some GL_UNSIGNED_SHORT\<rparr>"
proof -
  have c: "count_at example_env example_scene 0 = Fin 4"
      "count_at example_env example_scene (Suc 0) = Fin 10"
    by (simp_all add: count_at_def example_scene_eq array_get_def example_env_def
        example_positions_def example_offsets_def)
  have i: "\<exists>i<MAX_ATTRIBUTES (vertexArrayObject example_scene).
             is_set example_scene i \<and> instanced_at example_scene i"
    by (rule exI [of _ 1])
       (simp add: example_scene_eq is_set_def instanced_at_def divisor_at_def array_get_def)
  have e: "elements example_scene = Some example_indices"
    by (simp add: example_scene_eq)
  show ?thesis
    unfolding updateDrawParams_eq [OF example_scene_locations(3)]
    using i by (simp add: example_scene_locations c e example_indices_def example_env_fields)
qed

lemma example_drawn_drawParams:
  "drawParams example_drawn =
     Some \<lparr>isIndexed = True, isInstanced = True, indexCount = Fin 0, vertexCount = Fin 4,
           instanceCount = Fin 10, elementCount = Some (Fin 6),
           indexType = Some GL_UNSIGNED_SHORT\<rparr>"
proof -
  have "cache_current example_env example_scene"
    by (simp add: cache_current_def example_scene_eq)
  from getDrawParams_current [OF this example_scene_updateDrawParams, of JUndefined]
  show ?thesis by (auto simp: example_drawn_def)
qed

lemma example_drawn_configuration: "configuration example_drawn = None"
  by (cases "getDrawParams example_env JUndefined example_scene")
     (auto simp: example_drawn_def getDrawParams_def updateAttributeZeroBuffer_def
        buffer_or_new_def example_scene_eq Let_def split: sum.splits if_splits)

lemma example_configured_configuration:
  "configuration example_configured = Some example_configuration"
proof -
  obtain s0 where "constructor example_env (WebGLContext 0) example_props
         = initialize example_env example_props s0"
    using constructor_initialize by blast
  then show ?thesis
    unfolding example_configured_def initialize_def
    by (simp add: setProps_configuration example_props_def)
qed

lemma setBuffer_stores:
  assumes "target buf \<noteq> GL_ELEMENT_ARRAY_BUFFER"
    and "setBuffer env l buf a s = (Inr u, s1)"
    and "resolves_to_location env s l"
  shows "values_arr s1 = array_set (values_arr s) (getAttributeIndex env s l) (JBuffer buf)
       \<and> (\<exists>acc. accessors s1 = array_set (accessors s) (getAttributeIndex env s l) (JObject acc))
       \<and> drawParams s1 = None"
  using assms
  by (auto simp: setBuffer_def resolveLocationAndAccessor_def resolves_to_location_def
      clearDrawParams_def Let_def split: if_splits)

lemma setConstant_stores:
  assumes "setConstant env l v a s = (Inr u, s1)"
    and "resolves_to_location env s l"
  shows "(\<exists>acc. values_arr s1 = array_set (values_arr s) (getAttributeIndex env s l)
                   (normalizeConstantArrayValue env v acc)
            \<and> accessors s1 = array_set (accessors s) (getAttributeIndex env s l) (JObject acc))
       \<and> drawParams s1 = None"
  using assms
  by (auto simp: setConstant_def resolveLocationAndAccessor_def resolves_to_location_def
      clearDrawParams_def Let_def split: if_splits)

lemma setBuffer_ignores:
  assumes "target buf \<noteq> GL_ELEMENT_ARRAY_BUFFER"
    and "\<not> resolves_to_location env s l"
  shows "values_arr (snd (setBuffer env l buf a s)) = values_arr s
       \<and> accessors (snd (setBuffer env l buf a s)) = accessors s
       \<and> drawParams (snd (setBuffer env l buf a s)) = drawParams s
       \<and> elements (snd (setBuffer env l buf a s)) = elements s"
  using assms
  by (auto simp: setBuffer_def resolveLocationAndAccessor_def resolves_to_location_def
      clearDrawParams_def Let_def split: if_splits)

lemma setConstant_ignores:
  assumes "\<not> resolves_to_location env s l"
  shows "values_arr (snd (setConstant env l v a s)) = values_arr s
       \<and> accessors (snd (setConstant env l v a s)) = accessors s
       \<and> drawParams (snd (setConstant env l v a s)) = drawParams s
       \<and> elements (snd (setConstant env l v a s)) = elements s"
  using assms
  by (auto simp: setConstant_def resolveLocationAndAccessor_def resolves_to_location_def
      clearDrawParams_def Let_def split: if_splits)

lemma is_array_index_nat [simp]: "is_array_index (real n) = (n < 4294967295)"
  by (simp add: is_array_index_def)





section \<open>The states that the methods produce\<close>

text \<open>
  Every state that the constructor and the setters produce has consistent tables and
  current cached draw parameters; such a state has paired tables.
\<close>

lemma length_store_item: "length (store_item xs n v) = max (length xs) (Suc n)"
  by (simp add: store_item_def max_def)

lemma nth_store_item:
  assumes "i < max (length xs) (Suc n)"
  shows "store_item xs n v ! i =
     (if i = n then v else if i < length xs then xs ! i else JUndefined)"
  using assms by (auto simp: store_item_def nth_append nth_list_update)

lemma tables_consistent_paired:
  assumes "tables_consistent s"
  shows "paired s"
proof -
  have "paired_at s i" if i: "i < MAX_ATTRIBUTES (vertexArrayObject s)" for i
  proof (cases "is_set s i")
    case False
    then show ?thesis by (simp add: paired_at_def)
  next
    case True
    from assms i have l: "i < length (items (values_arr s))" "i < length (items (accessors s))"
      by (simp_all add: tables_consistent_def)
    with True have "truthy (items (values_arr s) ! i)" by (simp add: is_set_def array_get_def)
    with assms l obtain acc where "items (accessors s) ! i = JObject acc"
      unfolding tables_consistent_def by blast
    with l show ?thesis by (simp add: paired_at_def array_get_def)
  qed
  then show ?thesis by (simp add: paired_def list_all_iff)
qed

lemma tables_consistent_reset: "tables_consistent (reset s)"
  by (simp add: tables_consistent_def reset_def new_Array_fill_def Let_def)

lemma tables_consistent_store:
  assumes "tables_consistent s"
    and "values_arr s1 = array_set (values_arr s) loc v"
    and "accessors s1 = array_set (accessors s) loc (JObject acc)"
    and "vertexArrayObject s1 = vertexArrayObject s"
  shows "tables_consistent s1"
proof (cases loc)
  case (Fin r)
  show ?thesis
  proof (cases "is_array_index r")
    case True
    with assms Fin show ?thesis
      unfolding tables_consistent_def
      by (auto simp: length_store_item nth_store_item)
  next
    case False
    with assms Fin show ?thesis by (simp add: tables_consistent_def)
  qed
qed (use assms in \<open>simp_all add: tables_consistent_def\<close>)

lemma tables_consistent_cong:
  assumes "tables_consistent s"
    and "values_arr s1 = values_arr s" and "accessors s1 = accessors s"
    and "vertexArrayObject s1 = vertexArrayObject s"
  shows "tables_consistent s1"
  using assms by (simp add: tables_consistent_def)

lemma updateDrawParamsForLocation_cong:
  assumes "values_arr s1 = values_arr s" and "accessors s1 = accessors s"
  shows "updateDrawParamsForLocation env s1 dp i = updateDrawParamsForLocation env s dp i"
  unfolding updateDrawParamsForLocation_def assms by (rule refl)

lemma updateDrawParams_loop_cong:
  assumes "values_arr s1 = values_arr s" and "accessors s1 = accessors s"
  shows "updateDrawParams_loop env s1 locs dp = updateDrawParams_loop env s locs dp"
proof (induction locs arbitrary: dp)
  case Nil
  show ?case by simp
next
  case (Cons i locs)
  show ?case
    by (simp add: updateDrawParamsForLocation_cong [OF assms] Cons.IH cong: sum.case_cong)
qed

lemma updateDrawParams_cong:
  assumes "values_arr s1 = values_arr s" and "accessors s1 = accessors s"
    and "elements s1 = elements s" and "vertexArrayObject s1 = vertexArrayObject s"
  shows "updateDrawParams env s1 = updateDrawParams env s"
  unfolding updateDrawParams_def updateDrawParams_loop_cong [OF assms(1,2)] assms(3) assms(4)
  by (rule refl)

lemma cache_current_cong:
  assumes "cache_current env s"
    and "(values_arr s1 = values_arr s \<and> accessors s1 = accessors s
          \<and> elements s1 = elements s \<and> drawParams s1 = drawParams s)
         \<or> drawParams s1 = None"
    and "vertexArrayObject s1 = vertexArrayObject s"
  shows "cache_current env s1"
proof (cases "drawParams s1")
  case None
  then show ?thesis by (simp add: cache_current_def)
next
  case (Some dp)
  with assms(2) have eq: "values_arr s1 = values_arr s" "accessors s1 = accessors s"
      "elements s1 = elements s" "drawParams s = Some dp"
    by auto
  from assms(1) eq(4) have "updateDrawParams env s = Inr dp" by (simp add: cache_current_def)
  then have "updateDrawParams env s1 = Inr dp"
    by (simp only: updateDrawParams_cong [OF eq(1,2,3) assms(3)])
  with Some show ?thesis by (simp add: cache_current_def)
qed

lemma setBuffer_changes:
  assumes "setBuffer env l buf a s = (r, s1)"
  shows "(values_arr s1 = values_arr s \<and> accessors s1 = accessors s
          \<and> elements s1 = elements s \<and> drawParams s1 = drawParams s)
       \<or> ((\<exists>acc. values_arr s1 = array_set (values_arr s) (getAttributeIndex env s l) (JBuffer buf)
              \<and> accessors s1 = array_set (accessors s) (getAttributeIndex env s l) (JObject acc))
           \<or> (values_arr s1 = values_arr s \<and> accessors s1 = accessors s))
          \<and> drawParams s1 = None"
proof (cases "target buf = GL_ELEMENT_ARRAY_BUFFER")
  case True
  with assms show ?thesis by (auto simp: setBuffer_def)
next
  case False
  show ?thesis
  proof (cases "resolves_to_location env s l")
    case True
    show ?thesis
    proof (cases r)
      case (Inl e)
      with assms False show ?thesis
        by (auto simp: setBuffer_def resolveLocationAndAccessor_def Let_def
            split: if_splits)
    next
      case (Inr u)
      with setBuffer_stores [OF False _ True, of a u s1] assms show ?thesis by auto
    qed
  next
    case nr: False
    from setBuffer_ignores [OF False nr, of a] assms show ?thesis by simp
  qed
qed

lemma setConstant_changes:
  assumes "setConstant env l v a s = (r, s1)"
  shows "(values_arr s1 = values_arr s \<and> accessors s1 = accessors s
          \<and> elements s1 = elements s \<and> drawParams s1 = drawParams s)
       \<or> (\<exists>acc. values_arr s1 = array_set (values_arr s) (getAttributeIndex env s l)
                     (normalizeConstantArrayValue env v acc)
              \<and> accessors s1 = array_set (accessors s) (getAttributeIndex env s l) (JObject acc))
          \<and> drawParams s1 = None"
proof (cases "resolves_to_location env s l")
  case True
  show ?thesis
  proof (cases r)
    case (Inl e)
    with assms show ?thesis
      by (auto simp: setConstant_def resolveLocationAndAccessor_def Let_def
          split: if_splits)
  next
    case (Inr u)
    with setConstant_stores [OF _ True, of v a u s1] assms show ?thesis by auto
  qed
next
  case nr: False
  from setConstant_ignores [OF nr, of v a] assms show ?thesis by simp
qed

lemma produced_cong:
  assumes "values_arr s1 = values_arr s" and "accessors s1 = accessors s"
    and "elements s1 = elements s" and "drawParams s1 = drawParams s"
    and "vertexArrayObject s1 = vertexArrayObject s"
  shows "produced env s1 = produced env s"
  unfolding produced_def tables_consistent_def cache_current_def
    updateDrawParams_cong [OF assms(1,2,3,5)] assms
  by (rule refl)

lemma produced_setBuffer:
  assumes "produced env s"
  shows "produced env (snd (setBuffer env l buf a s))"
proof -
  obtain r s1 where sb: "setBuffer env l buf a s = (r, s1)" by (cases "setBuffer env l buf a s")
  from setBuffer_frame [OF sb] have v: "vertexArrayObject s1 = vertexArrayObject s" by simp
  from assms have t: "tables_consistent s" and c: "cache_current env s"
    by (simp_all add: produced_def)
  from setBuffer_changes [OF sb] have "tables_consistent s1"
    using tables_consistent_store [OF t _ _ v] tables_consistent_cong [OF t _ _ v] by blast
  moreover from setBuffer_changes [OF sb] have "cache_current env s1"
    using cache_current_cong [OF c _ v] by blast
  ultimately show ?thesis by (simp add: produced_def sb)
qed

lemma produced_setConstant:
  assumes "produced env s"
  shows "produced env (snd (setConstant env l v a s))"
proof -
  obtain r s1 where sc: "setConstant env l v a s = (r, s1)"
    by (cases "setConstant env l v a s")
  from setConstant_frame [OF sc] have vo: "vertexArrayObject s1 = vertexArrayObject s" by simp
  from assms have t: "tables_consistent s" and c: "cache_current env s"
    by (simp_all add: produced_def)
  from setConstant_changes [OF sc] have "tables_consistent s1"
    using tables_consistent_store [OF t _ _ vo] tables_consistent_cong [OF t _ _ vo] by blast
  moreover from setConstant_changes [OF sc] have "cache_current env s1"
    using cache_current_cong [OF c _ vo] by blast
  ultimately show ?thesis by (simp add: produced_def sc)
qed

lemma produced_emit [simp]: "produced env (emit e s) = produced env s"
  by (rule produced_cong) simp_all

lemma produced_setElementBuffer:
  assumes "produced env s"
  shows "produced env (setElementBuffer eb a s)"
  using assms
  by (simp add: produced_def tables_consistent_def cache_current_def)

lemma produced_setElements:
  assumes "produced env s"
  shows "produced env (setElements eb a s)"
  using assms by (simp add: setElements_def produced_setElementBuffer)

lemma produced_configuration:
  "produced env (s\<lparr>configuration := c\<rparr>) = produced env s"
  by (rule produced_cong) simp_all

lemma produced_setAttributes:
  assumes "produced env s"
  shows "produced env (snd (setAttributes env attrs s))"
proof -
  have "produced env (snd (setAttributes_loop env attrs (emit VAO_bind_enter s)))"
    by (rule setAttributes_loop_invariant)
       (simp_all add: assms produced_setBuffer produced_setConstant)
  then show ?thesis
    by (cases "setAttributes_loop env attrs (emit VAO_bind_enter s)")
       (auto simp: setAttributes_def split: sum.splits)
qed

lemma produced_setProps:
  assumes "produced env s"
  shows "produced env (snd (setProps env props s))"
proof -
  define sp where "sp = (case p_program props of
                  None \<Rightarrow> s
                | Some None \<Rightarrow> s\<lparr>configuration := None\<rparr>
                | Some (Some prog) \<Rightarrow> s\<lparr>configuration := program_configuration prog\<rparr>)"
  define sc where "sc = (case p_configuration props of
                  None \<Rightarrow> sp
                | Some c \<Rightarrow> sp\<lparr>configuration := c\<rparr>)"
  have "produced env sp" using assms
    by (simp add: sp_def produced_configuration split: option.splits)
  then have sc: "produced env sc"
    by (simp add: sc_def produced_configuration split: option.splits)
  show ?thesis
  proof (cases "p_attributes props")
    case None
    with sc show ?thesis
      by (auto simp: setProps_def Let_def sc_def sp_def produced_setElements
          split: option.splits)
  next
    case (Some attrs)
    obtain r0 s0 where sa: "setAttributes env attrs sc = (r0, s0)"
      by (cases "setAttributes env attrs sc")
    from produced_setAttributes [OF sc, of attrs] sa have p0: "produced env s0" by simp
    obtain r1 s1 where sq: "setProps env props s = (r1, s1)" by (cases "setProps env props s")
    from sq Some sa have "s1 = s0 \<or> (\<exists>eb. s1 = setElements eb JUndefined s0)"
      by (auto simp: setProps_def Let_def sc_def sp_def split: option.splits sum.splits)
    with p0 sq show ?thesis by (auto simp: produced_setElements)
  qed
qed

lemma produced_reset: "produced env (reset s)"
proof -
  have "drawParams (reset s) = None" by (simp add: reset_def Let_def)
  then have "cache_current env (reset s)" by (simp add: cache_current_def)
  with tables_consistent_reset show ?thesis by (simp add: produced_def)
qed

lemma produced_constructor: "produced env (snd (constructor env g opts))"
proof -
  have "produced env ((reset s0)\<lparr>configuration := None, bindOnUse := False\<rparr>)" for s0
  proof -
    have "produced env ((reset s0)\<lparr>configuration := None, bindOnUse := False\<rparr>)
        = produced env (reset s0)"
      by (rule produced_cong) simp_all
    with produced_reset show ?thesis by simp
  qed
  then show ?thesis
    by (simp add: constructor_def initialize_def Let_def produced_setProps)
qed

lemma produced_updateAttributeZeroBuffer:
  "produced env (updateAttributeZeroBuffer env len s) = produced env s"
  by (rule produced_cong)
     (simp_all add: updateAttributeZeroBuffer_def buffer_or_new_def Let_def split: option.splits)

lemma produced_getDrawParams:
  assumes "produced env s"
  shows "produced env (snd (getDrawParams env vc s))"
proof (cases "drawParams s")
  case None
  show ?thesis
  proof (cases "updateDrawParams env s")
    case (Inl e)
    with None assms show ?thesis by (simp add: getDrawParams_def)
  next
    case (Inr dp)
    have "updateDrawParams env (s\<lparr>drawParams := Some dp\<rparr>) = updateDrawParams env s"
      by (rule updateDrawParams_cong) simp_all
    with Inr assms have "produced env (s\<lparr>drawParams := Some dp\<rparr>)"
      by (simp add: produced_def tables_consistent_def cache_current_def)
    with None Inr show ?thesis
      by (simp add: getDrawParams_def Let_def produced_updateAttributeZeroBuffer)
  qed
next
  case (Some dp)
  with assms show ?thesis
    by (simp add: getDrawParams_cached produced_updateAttributeZeroBuffer)
qed

lemma produced_bindBuffers_loop:
  assumes "produced env s"
  shows "produced env (snd (bindBuffers_loop env locs s))"
  using assms
proof (induction locs arbitrary: s)
  case Nil
  then show ?case by simp
next
  case (Cons i locs)
  show ?case
  proof (cases "instanceof_Buffer (array_get (values_arr s) i)")
    case False
    with Cons show ?thesis by simp
  next
    case True
    obtain r s1 where sb: "setBuffer env (Location (Fin (real i)))
        (the_Buffer (array_get (values_arr s) i)) JUndefined s = (r, s1)"
      by (cases "setBuffer env (Location (Fin (real i)))
        (the_Buffer (array_get (values_arr s) i)) JUndefined s")
    from produced_setBuffer [OF Cons.prems, of "Location (Fin (real i))"
        "the_Buffer (array_get (values_arr s) i)" JUndefined] sb
    have "produced env s1" by simp
    with Cons.IH [of s1] sb True Cons.prems show ?thesis by (cases r) simp_all
  qed
qed

lemma produced_bindBuffers:
  assumes "produced env s"
  shows "produced env (snd (bindBuffers env s))"
proof -
  from assms have "produced env (emit VAO_bind_enter s)" by simp
  from produced_bindBuffers_loop [OF this, of "[0..<MAX_ATTRIBUTES (vertexArrayObject s)]"]
  show ?thesis
    by (cases "bindBuffers_loop env [0..<MAX_ATTRIBUTES (vertexArrayObject s)]
          (emit VAO_bind_enter s)")
       (auto simp: bindBuffers_def split: sum.splits)
qed

lemma produced_fold_emitters:
  assumes "\<And>i s0. produced env (f i s0) = produced env s0"
  shows "produced env (fold f locs s) = produced env s"
  by (induction locs arbitrary: s) (simp_all add: assms)

lemma produced_setConstantAttributes:
  "produced env (setConstantAttributes s) = produced env s"
  unfolding setConstantAttributes_def
  by (rule produced_fold_emitters) (simp add: setConstantAttributes_at_def Let_def)

lemma produced_unbindBuffers: "produced env (unbindBuffers env s) = produced env s"
proof -
  have b: "produced env (buffer_or_new env 4 s0) = produced env s0" for s0
    by (rule produced_cong) (simp_all add: buffer_or_new_def split: option.splits)
  have "produced env (fold unbindBuffers_at locs s0) = produced env s0" for locs s0
    by (rule produced_fold_emitters) (simp add: unbindBuffers_at_def)
  then show ?thesis by (simp add: unbindBuffers_def Let_def b)
qed

text \<open>
  \<open>bindForUse\<close> produces such a state from one, provided the function it runs does.
\<close>

lemma produced_bindForUse:
  assumes "produced env s"
    and "\<And>s0. produced env s0 \<Longrightarrow> produced env (snd (func s0))"
  shows "produced env (snd (bindForUse env len func s))"
proof -
  have z: "produced env (if Number_isFinite len
      then updateAttributeZeroBuffer env (JNumber len) s else s)"
    using assms(1) by (simp add: produced_updateAttributeZeroBuffer)
  define s2 where "s2 = setConstantAttributes (if Number_isFinite len
      then updateAttributeZeroBuffer env (JNumber len) s else s)"
  from z have p2: "produced env s2" by (simp add: s2_def produced_setConstantAttributes)
  define s3 where "s3 = (case elements s2 of
                   Some el \<Rightarrow> setElementBuffer (Some el) JUndefined s2
                 | None \<Rightarrow> s2)"
  from p2 have p3: "produced env s3"
    by (simp add: s3_def produced_setElementBuffer split: option.splits)
  have before: "bindForUse_before env len s = bindBuffers env s3"
    unfolding bindForUse_before_def hasVertexArrays_def s3_def s2_def Let_def by simp
  obtain r4 s4 where b: "bindBuffers env s3 = (r4, s4)" by (cases "bindBuffers env s3")
  from produced_bindBuffers [OF p3] b have p4: "produced env s4" by simp
  show ?thesis
  proof (cases r4)
    case (Inl e)
    with b before p4 show ?thesis by (simp add: bindForUse_def)
  next
    case (Inr u)
    obtain r5 s5 where f: "func (emit VAO_bind s4) = (r5, s5)"
      by (cases "func (emit VAO_bind s4)")
    from assms(2) [of "emit VAO_bind s4"] p4 f have p5: "produced env s5" by simp
    with Inr b before f show ?thesis
      by (cases r5)
         (simp_all add: bindForUse_def bindForUse_after_def hasVertexArrays_def
            produced_unbindBuffers)
  qed
qed

lemma produced_paired_current:
  assumes "produced env s"
  shows "paired s \<and> cache_current env s"
  using assms by (simp add: produced_def tables_consistent_paired)

section \<open>The draw parameters of the tables\<close>

lemma step_unpaired:
  assumes "\<not> paired_at s i"
  shows "updateDrawParamsForLocation env s dp i = Inl TypeError"
proof -
  from assms have t: "truthy (array_get (values_arr s) i)"
    and a: "array_get (accessors s) i = JNull \<or> array_get (accessors s) i = JUndefined"
    by (auto simp: paired_at_def is_set_def split: if_splits)
  from a have "destructure_divisor (array_get (accessors s) i) = Inl TypeError" by auto
  with t show ?thesis by (simp add: updateDrawParamsForLocation_def Let_def)
qed

lemma loop_unpaired:
  assumes "\<not> list_all (paired_at s) locs"
  shows "updateDrawParams_loop env s locs dp = Inl TypeError"
  using assms
proof (induction locs arbitrary: dp)
  case Nil
  then show ?case by simp
next
  case (Cons i locs)
  show ?case
  proof (cases "paired_at s i")
    case True
    with Cons.prems have "\<not> list_all (paired_at s) locs" by simp
    from Cons.IH [OF this] show ?thesis by (simp add: step_eq [OF True])
  next
    case False
    then show ?thesis by (simp add: step_unpaired)
  qed
qed

lemma updateDrawParams_tables: "updateDrawParams env s = drawParams_of_tables env s"
proof (cases "paired s")
  case True
  have ex: "list_ex (\<lambda>i. is_set s i \<and> instanced_at s i) [0..<MAX_ATTRIBUTES (vertexArrayObject s)]
        = (\<exists>i<MAX_ATTRIBUTES (vertexArrayObject s). is_set s i \<and> instanced_at s i)"
    by (auto simp: list_ex_iff)
  show ?thesis
    unfolding updateDrawParams_eq [OF True] drawParams_of_tables_def Math_min_list_def ex Let_def
    using True by simp
next
  case False
  then have "updateDrawParams_loop env s [0..<MAX_ATTRIBUTES (vertexArrayObject s)]
      initial_drawParams = Inl TypeError"
    by (intro loop_unpaired) (simp add: paired_def)
  with False show ?thesis by (simp add: updateDrawParams_def drawParams_of_tables_def)
qed

lemma getDrawParams_tables:
  assumes "drawParams s = None"
  shows "getDrawParams env vc s =
          (case drawParams_of_tables env s of
             Inl e \<Rightarrow> (Inl e, s)
           | Inr dp \<Rightarrow>
               (Inr dp,
                updateAttributeZeroBuffer env
                  (if truthy vc then vc else JNumber (vertexCount dp))
                  (s\<lparr>drawParams := Some dp\<rparr>)))"
  using assms
  by (simp add: getDrawParams_def updateDrawParams_tables Let_def split: sum.splits)

lemma getDrawParams_tables_fst:
  assumes "drawParams s = None"
  shows "fst (getDrawParams env vc s) = drawParams_of_tables env s"
  unfolding getDrawParams_tables [OF assms]
  by (cases "drawParams_of_tables env s") simp_all

lemma example_drawn_fields:
  "values_arr example_drawn = values_arr example_scene"
  "accessors example_drawn = accessors example_scene"
  "elements example_drawn = elements example_scene"
  "vertexArrayObject example_drawn = vertexArrayObject example_scene"
  by (cases "getDrawParams example_env JUndefined example_scene";
      auto simp: example_drawn_def getDrawParams_def updateAttributeZeroBuffer_def
        buffer_or_new_def example_scene_eq Let_def split: sum.splits if_splits)+

lemma example_replaced_fields:
  "values_arr example_replaced =
     \<lparr>items = [JBuffer example_plain, JBuffer example_offsets,
               JNull, JNull, JNull, JNull, JNull, JNull, JNull, JNull,
               JNull, JNull, JNull, JNull, JNull, JNull],
      named = (\<lambda>k. None)\<rparr>"
  "accessors example_replaced =
     \<lparr>items = [JObject \<lparr>acc_size = Some (Fin 1), acc_type = Some (Fin 5126),
                        divisor = Some (Fin 0)\<rparr>,
               JObject \<lparr>acc_size = Some (Fin 2), acc_type = Some (Fin 5126),
                        divisor = Some (Fin 1)\<rparr>,
               JNull, JNull, JNull, JNull, JNull, JNull, JNull, JNull,
               JNull, JNull, JNull, JNull, JNull, JNull],
      named = (\<lambda>k. None)\<rparr>"
  "elements example_replaced = Some example_indices"
  "drawParams example_replaced = None"
  "vertexArrayObject example_replaced = \<lparr>isDefaultArray = True, MAX_ATTRIBUTES = 16\<rparr>"
  by (simp_all add: example_replaced_def setBuffer_def resolveLocationAndAccessor_def
      getAttributeIndex_def getAttributeInfo_of_def example_drawn_configuration
      example_drawn_fields example_scene_eq example_env_fields example_plain_def
      example_accessor_def GL_ARRAY_BUFFER_def GL_ELEMENT_ARRAY_BUFFER_def
      clearDrawParams_def accessor_value_def default_object_def empty_object_def
      store_item_def is_array_index_examples Let_def)

lemma example_replaced_drawParams:
  "drawParams_of_tables example_env example_replaced =
     Inr \<lparr>isIndexed = True, isInstanced = True, indexCount = Fin 0, vertexCount = Fin 0,
          instanceCount = Fin 10, elementCount = Some (Fin 6),
          indexType = Some GL_UNSIGNED_SHORT\<rparr>"
proof -
  have p: "paired example_replaced"
    by (simp add: paired_def paired_at_def is_set_def example_replaced_fields upt_16
        array_get_def)
  have l: "vertex_buffer_locations example_replaced = [0]"
      "instance_buffer_locations example_replaced = [1]"
    by (simp_all add: vertex_buffer_locations_def instance_buffer_locations_def is_buffer_def
        instanced_at_def divisor_at_def example_replaced_fields upt_16 array_get_def)
  have c: "count_at example_env example_replaced 0 = Fin 0"
      "count_at example_env example_replaced (Suc 0) = Fin 10"
    by (simp_all add: count_at_def example_replaced_fields array_get_def example_env_fields
        example_plain_def example_offsets_def)
  have i: "list_ex (\<lambda>i. is_set example_replaced i \<and> instanced_at example_replaced i)
      [0..<MAX_ATTRIBUTES (vertexArrayObject example_replaced)]"
    by (simp add: example_replaced_fields upt_16 is_set_def instanced_at_def divisor_at_def
        array_get_def)
  show ?thesis
    unfolding drawParams_of_tables_def
    using p i
    by (simp add: l c Math_min_list_def example_replaced_fields(3) example_indices_def
        example_env_fields)
qed

section \<open>The delegate chosen by the constructor\<close>

text \<open>
  Claim C7. For every gl context and every options object, the constructor leaves in
  \<open>vertexArrayObject\<close> a newly created VertexArrayObject when
  \<open>VertexArrayObject.isSupported(gl)\<close> is true and the default array
  \<open>VertexArrayObject.getDefaultArray(gl)\<close> otherwise; \<open>initialize\<close>, which the
  constructor runs afterwards, does not assign the field, also when it throws.
\<close>

theorem constructor_vertexArrayObject:
  "vertexArrayObject (snd (constructor env g opts)) =
     (if isSupported env g then new_VertexArrayObject env g else getDefaultArray env g)"
proof -
  obtain r s1 where c: "constructor env g opts = (r, s1)" by (cases "constructor env g opts")
  then show ?thesis
    unfolding constructor_def initialize_def Let_def
    by (auto dest!: setProps_frame simp: reset_def Let_def)
qed

section \<open>Element buffers given to setBuffer\<close>

text \<open>
  Claim C8. For every buffer whose target is \<open>GL.ELEMENT_ARRAY_BUFFER\<close>,
  \<open>setBuffer(locationOrName, buffer)\<close> returns normally, makes the buffer the element
  buffer, clears the draw parameters and leaves the tables of values and accessors as
  they were, whatever \<open>locationOrName\<close> and the optional accessor are.
\<close>

theorem setBuffer_element_array_buffer:
  assumes "target buf = GL_ELEMENT_ARRAY_BUFFER"
  shows "\<exists>s'. setBuffer env locationOrName buf optAccessor s = (Inr (), s')
           \<and> elements s' = Some buf \<and> drawParams s' = None
           \<and> values_arr s' = values_arr s \<and> accessors s' = accessors s"
  using assms by (simp add: setBuffer_def)

theorem setBuffer_element_array_buffer_witness:
  "target example_indices = GL_ELEMENT_ARRAY_BUFFER
   \<and> (\<exists>s'. setBuffer example_env (Name ''indices'') example_indices JUndefined example_state
              = (Inr (), s')
         \<and> elements s' = Some example_indices \<and> drawParams s' = None
         \<and> values_arr s' = values_arr example_state \<and> accessors s' = accessors example_state)"
proof -
  have h: "target example_indices = GL_ELEMENT_ARRAY_BUFFER"
    by (simp add: example_indices_def)
  from setBuffer_element_array_buffer [OF h] h show ?thesis by blast
qed

section \<open>The bindOnUse field\<close>

text \<open>
  Claim C10. For every props object, \<open>setProps\<close> leaves the field \<open>bindOnUse\<close> as it
  was, also when the props hold a \<open>bindOnUse\<close> key: that branch assigns the parameter
  \<open>props\<close> only. After \<open>initialize\<close>, which sets the field to false and then runs
  \<open>setProps\<close>, the field is false.
\<close>

theorem setProps_keeps_bindOnUse:
  "bindOnUse (snd (setProps env props s)) = bindOnUse s
   \<and> bindOnUse (snd (initialize env props s)) = False"
proof
  show "bindOnUse (snd (setProps env props s)) = bindOnUse s"
    using setProps_frame [of env props s] by (cases "setProps env props s") simp
  show "bindOnUse (snd (initialize env props s)) = False"
    using setProps_frame [of env props "(reset s)\<lparr>configuration := None, bindOnUse := False\<rparr>"]
    by (cases "initialize env props s") (simp add: initialize_def)
qed

section \<open>The draw parameters\<close>

text \<open>
  Claim C1, amended. Take a state whose tables are paired and whose cached draw
  parameters are current (as in every state that the methods produce, by
  \<open>produced_paired_current\<close>), with at least one buffer that is not instanced at a
  location below \<open>MAX_ATTRIBUTES\<close>, all buffers of the table reporting finite counts.
  Then \<open>getDrawParams\<close> returns draw parameters in which \<open>isInstanced\<close> holds iff some
  set attribute below \<open>MAX_ATTRIBUTES\<close> has a divisor \<open>> 0\<close>, \<open>vertexCount\<close> is the
  least count of the buffers that are not instanced, \<open>instanceCount\<close> is the least
  count of the instanced buffers, or 0 when there are none, and \<open>isIndexed\<close> holds,
  with \<open>indexType\<close> the type of the element buffer, iff an element buffer is set.
\<close>

theorem getDrawParams_result:
  assumes "paired s"
    and "cache_current env s"
    and "vertex_buffer_locations s \<noteq> []"
    and "\<forall>i\<in>set (vertex_buffer_locations s) \<union> set (instance_buffer_locations s).
           Number_isFinite (count_at env s i)"
  shows "\<exists>dp s'. getDrawParams env vc s = (Inr dp, s')
      \<and> (isInstanced dp \<longleftrightarrow>
           (\<exists>i<MAX_ATTRIBUTES (vertexArrayObject s). is_set s i \<and> instanced_at s i))
      \<and> vertexCount dp = minimum (map (count_at env s) (vertex_buffer_locations s))
      \<and> instanceCount dp =
           (if instance_buffer_locations s = [] then Fin 0
            else minimum (map (count_at env s) (instance_buffer_locations s)))
      \<and> (isIndexed dp \<longleftrightarrow> elements s \<noteq> None)
      \<and> indexType dp = map_option buf_type (elements s)
      \<and> drawParams s' = Some dp"
proof -
  let ?vs = "map (count_at env s) (vertex_buffer_locations s)"
  let ?ns = "map (count_at env s) (instance_buffer_locations s)"
  have v: "foldl Math_min PosInfinity ?vs = minimum ?vs"
    using assms(3,4) by (subst Math_min_list_finite) auto
  have n: "foldl Math_min PosInfinity ?ns = (if ?ns = [] then PosInfinity else minimum ?ns)"
    using assms(4) by (subst Math_min_list_finite) auto
  define dp where "dp = \<lparr>isIndexed = (elements s \<noteq> None),
                  isInstanced = (\<exists>i<MAX_ATTRIBUTES (vertexArrayObject s).
                                   is_set s i \<and> instanced_at s i),
                  indexCount = Fin 0,
                  vertexCount = minimum ?vs,
                  instanceCount = (if ?ns = [] then Fin 0 else minimum ?ns),
                  elementCount =
                    map_option (\<lambda>el. getElementCount env el (accessor_value (buf_accessor el)))
                      (elements s),
                  indexType = map_option buf_type (elements s)\<rparr>"
  have "updateDrawParams env s = Inr dp"
    unfolding updateDrawParams_eq [OF assms(1)] Let_def v n dp_def
    by (simp add: minimum_def)
  from getDrawParams_current [OF assms(2) this, of vc] show ?thesis
    by (auto simp: dp_def)
qed

theorem getDrawParams_result_witness:
  "paired example_scene \<and> cache_current example_env example_scene
   \<and> vertex_buffer_locations example_scene = [0]
   \<and> instance_buffer_locations example_scene = [1]
   \<and> Number_isFinite (count_at example_env example_scene 0)
   \<and> Number_isFinite (count_at example_env example_scene 1)
   \<and> (\<exists>dp s'. getDrawParams example_env JUndefined example_scene = (Inr dp, s')
         \<and> isInstanced dp \<and> vertexCount dp = Fin 4 \<and> instanceCount dp = Fin 10
         \<and> isIndexed dp \<and> indexType dp = Some GL_UNSIGNED_SHORT
         \<and> drawParams s' = Some dp)"
proof -
  have h1: "paired example_scene" by (rule example_scene_locations)
  have h2: "cache_current example_env example_scene"
    by (simp add: cache_current_def example_scene_eq)
  have h3: "vertex_buffer_locations example_scene \<noteq> []"
    by (simp add: example_scene_locations)
  have c: "count_at example_env example_scene 0 = Fin 4"
      "count_at example_env example_scene (Suc 0) = Fin 10"
    by (simp_all add: count_at_def example_scene_eq array_get_def example_env_def
        example_positions_def example_offsets_def)
  have h4: "\<forall>i\<in>set (vertex_buffer_locations example_scene)
            \<union> set (instance_buffer_locations example_scene).
         Number_isFinite (count_at example_env example_scene i)"
    by (simp add: example_scene_locations c)
  have i: "\<exists>i<MAX_ATTRIBUTES (vertexArrayObject example_scene).
             is_set example_scene i \<and> instanced_at example_scene i"
    by (rule exI [of _ 1])
       (simp add: example_scene_eq is_set_def instanced_at_def divisor_at_def array_get_def)
  have e: "elements example_scene = Some example_indices"
    by (simp add: example_scene_eq)
  from getDrawParams_result [OF h1 h2 h3 h4, of JUndefined]
  obtain dp s' where "getDrawParams example_env JUndefined example_scene = (Inr dp, s')"
    "isInstanced dp" "vertexCount dp = Fin 4" "instanceCount dp = Fin 10"
    "isIndexed dp" "indexType dp = Some GL_UNSIGNED_SHORT" "drawParams s' = Some dp"
    using i by (auto simp: example_scene_locations c minimum_def e example_indices_def)
  with h1 h2 c show ?thesis by (simp add: example_scene_locations)
qed

text \<open>
  As stated, for every attribute state, the claim fails: in the state of a new
  VertexArray no buffer is set, \<open>vertexCount\<close> stays \<open>Infinity\<close> and the assertion of
  \<open>_updateDrawParams\<close> throws, so that \<open>getDrawParams\<close> returns no draw parameters.
\<close>

theorem getDrawParams_new_VertexArray_counterexample:
  "fst (getDrawParams example_env JUndefined example_state) = Inl AssertionFailed"
proof -
  have p: "paired example_state"
    by (simp add: paired_def paired_at_def is_set_def example_state_eq new_Array_fill_16
        upt_16 array_get_def)
  have v: "vertex_buffer_locations example_state = []"
    by (simp add: vertex_buffer_locations_def is_buffer_def example_state_eq new_Array_fill_16
        upt_16 array_get_def)
  have "updateDrawParams example_env example_state = Inl AssertionFailed"
    by (simp add: updateDrawParams_eq [OF p] v)
  moreover have "drawParams example_state = None" by (simp add: example_state_eq)
  ultimately show ?thesis by (simp add: getDrawParams_def)
qed

section \<open>When getDrawParams does not fail\<close>

text \<open>
  Claim C3, amended. In every state whose tables are paired, \<open>getDrawParams\<close> fails
  only by the assertion of \<open>_updateDrawParams\<close>. When moreover at least one buffer that
  is not instanced is set at a location below \<open>MAX_ATTRIBUTES\<close>, every such buffer
  reporting a finite count, the assertion holds (\<open>vertexCount\<close> is finite) and
  \<open>getDrawParams\<close> returns draw parameters.
\<close>

theorem getDrawParams_does_not_fail:
  assumes "paired s"
  shows "(fst (getDrawParams env vc s) = Inl e \<longrightarrow> e = AssertionFailed)
       \<and> (vertex_buffer_locations s \<noteq> []
            \<and> (\<forall>i\<in>set (vertex_buffer_locations s). Number_isFinite (count_at env s i)) \<longrightarrow>
          (\<exists>dp. updateDrawParams env s = Inr dp \<and> Number_isFinite (vertexCount dp))
          \<and> (\<exists>dp s'. getDrawParams env vc s = (Inr dp, s')))"
proof (intro conjI impI)
  assume f: "fst (getDrawParams env vc s) = Inl e"
  show "e = AssertionFailed"
  proof (cases "drawParams s")
    case None
    with f have "updateDrawParams env s = Inl e"
      by (cases "updateDrawParams env s") (simp_all add: getDrawParams_def Let_def)
    then show ?thesis
      unfolding updateDrawParams_eq [OF assms] Let_def by (simp split: if_splits)
  next
    case (Some dp)
    with f show ?thesis by (simp add: getDrawParams_cached)
  qed
next
  assume h: "vertex_buffer_locations s \<noteq> []
            \<and> (\<forall>i\<in>set (vertex_buffer_locations s). Number_isFinite (count_at env s i))"
  let ?vs = "map (count_at env s) (vertex_buffer_locations s)"
  have v: "foldl Math_min PosInfinity ?vs = minimum ?vs"
    using h by (subst Math_min_list_finite) auto
  show u: "\<exists>dp. updateDrawParams env s = Inr dp \<and> Number_isFinite (vertexCount dp)"
    unfolding updateDrawParams_eq [OF assms] Let_def v
    by (simp add: minimum_def)
  then obtain dp where dp: "updateDrawParams env s = Inr dp" by blast
  show "\<exists>dp s'. getDrawParams env vc s = (Inr dp, s')"
  proof (cases "drawParams s")
    case None
    with dp show ?thesis by (simp add: getDrawParams_def Let_def)
  next
    case (Some dp')
    then show ?thesis by (simp add: getDrawParams_cached)
  qed
qed

theorem getDrawParams_does_not_fail_witness:
  "paired example_scene \<and> vertex_buffer_locations example_scene = [0]
   \<and> Number_isFinite (count_at example_env example_scene 0)
   \<and> (\<exists>dp. updateDrawParams example_env example_scene = Inr dp
         \<and> Number_isFinite (vertexCount dp))
   \<and> (\<exists>dp s'. getDrawParams example_env JUndefined example_scene = (Inr dp, s'))
   \<and> paired example_cleared
   \<and> fst (getDrawParams example_env JUndefined example_cleared) = Inl AssertionFailed"
proof -
  have h1: "paired example_scene" by (rule example_scene_locations)
  have h2: "vertex_buffer_locations example_scene \<noteq> []"
    by (simp add: example_scene_locations)
  have c: "Number_isFinite (count_at example_env example_scene 0)"
    by (simp add: count_at_def example_scene_eq array_get_def
        example_env_def example_positions_def)
  then have h3: "\<forall>i\<in>set (vertex_buffer_locations example_scene).
         Number_isFinite (count_at example_env example_scene i)"
    by (simp add: example_scene_locations)
  have pr: "paired example_cleared"
    by (simp add: paired_def paired_at_def is_set_def example_cleared_eq upt_16 array_get_def)
  have v: "vertex_buffer_locations example_cleared = []"
    by (simp add: vertex_buffer_locations_def is_buffer_def example_cleared_eq upt_16
        array_get_def)
  have d: "drawParams example_cleared = None" by (simp add: example_cleared_eq)
  have "updateDrawParams example_env example_cleared = Inl AssertionFailed"
    by (simp add: updateDrawParams_eq [OF pr] v)
  with d have "\<exists>e. fst (getDrawParams example_env JUndefined example_cleared) = Inl e"
    by (simp add: getDrawParams_def)
  then obtain e where e: "fst (getDrawParams example_env JUndefined example_cleared) = Inl e"
    by blast
  from getDrawParams_does_not_fail [OF pr, of example_env JUndefined e] e
  have f: "fst (getDrawParams example_env JUndefined example_cleared) = Inl AssertionFailed"
    by simp
  from getDrawParams_does_not_fail [OF h1, of example_env JUndefined] h2 h3
  have "(\<exists>dp. updateDrawParams example_env example_scene = Inr dp
         \<and> Number_isFinite (vertexCount dp))
   \<and> (\<exists>dp s'. getDrawParams example_env JUndefined example_scene = (Inr dp, s'))"
    by blast
  with h1 c pr f show ?thesis by (simp add: example_scene_locations)
qed

text \<open>
  As stated the claim fails: \<open>setBuffer(16, buffer)\<close> on a new VertexArray with 16
  attribute locations stores the buffer, which is not instanced, at index 16 of the
  array, while \<open>_updateDrawParams\<close> walks the locations 0 to 15 only; the assertion
  throws although a buffer-valued attribute with a divisor that is not \<open>> 0\<close> is set.
\<close>

theorem getDrawParams_beyond_table_counterexample:
  "array_get (values_arr example_beyond) 16 = JBuffer example_positions
   \<and> \<not> instanced_at example_beyond 16
   \<and> fst (getDrawParams example_env JUndefined example_beyond) = Inl AssertionFailed"
proof -
  have p: "paired example_beyond"
    by (simp add: paired_def paired_at_def is_set_def example_beyond_eq upt_16 array_get_def)
  have v: "vertex_buffer_locations example_beyond = []"
    by (simp add: vertex_buffer_locations_def is_buffer_def example_beyond_eq upt_16 array_get_def)
  have "updateDrawParams example_env example_beyond = Inl AssertionFailed"
    by (simp add: updateDrawParams_eq [OF p] v)
  moreover have "drawParams example_beyond = None" by (simp add: example_beyond_eq)
  ultimately have "fst (getDrawParams example_env JUndefined example_beyond) = Inl AssertionFailed"
    by (simp add: getDrawParams_def)
  then show ?thesis
    by (simp add: example_beyond_eq array_get_def instanced_at_def divisor_at_def)
qed

section \<open>The size of the attribute table\<close>

text \<open>
  Claim C4, amended. After \<open>reset\<close> the arrays of values and of accessors both have
  length exactly \<open>MAX_ATTRIBUTES\<close>. \<open>setBuffer\<close>, \<open>setConstant\<close> and \<open>setAttributes\<close> keep
  that length when every location they resolve stays within the table (it is not an
  array index at or beyond \<open>MAX_ATTRIBUTES\<close>), and so do \<open>initialize\<close> and the
  constructor when the attributes of the props resolve within the table.
\<close>

theorem table_lengths:
  "table_sized (reset s)
   \<and> (table_sized s \<and> within_table env s l \<longrightarrow>
        table_sized (snd (setBuffer env l buf a s))
        \<and> table_sized (snd (setConstant env l v a s)))
   \<and> (table_sized s \<and> (\<forall>(k, v)\<in>set attrs. within_table env s (Name k)) \<longrightarrow>
        table_sized (snd (setAttributes env attrs s)))
   \<and> ((\<forall>attrs. p_attributes props = Some attrs \<longrightarrow>
          (\<forall>(k, v)\<in>set attrs. within_table env (snd (initialize env props s)) (Name k))) \<longrightarrow>
        table_sized (snd (initialize env props s)))
   \<and> ((\<forall>attrs. p_attributes props = Some attrs \<longrightarrow>
          (\<forall>(k, v)\<in>set attrs. within_table env (snd (constructor env g props)) (Name k))) \<longrightarrow>
        table_sized (snd (constructor env g props)))"
proof -
  have init: "table_sized (snd (initialize env props s0))"
    if "\<forall>attrs. p_attributes props = Some attrs \<longrightarrow>
          (\<forall>(k, v)\<in>set attrs. within_table env (snd (initialize env props s0)) (Name k))"
    for s0
  proof -
    have "table_sized ((reset s0)\<lparr>configuration := None, bindOnUse := False\<rparr>)"
      using reset_table_sized [of s0] by (simp add: table_sized_def)
    from setProps_table_sized [OF this, of props env] that show ?thesis
      by (simp add: initialize_def)
  qed
  show ?thesis
    using reset_table_sized setBuffer_table_sized setConstant_table_sized
      setAttributes_table_sized init
    by (simp add: constructor_def Let_def)
qed

theorem table_lengths_witness:
  "table_sized (reset example_state)
   \<and> table_sized example_state
   \<and> within_table example_env example_state (Location (Fin 0))
   \<and> table_sized (snd (setBuffer example_env (Location (Fin 0)) example_positions JUndefined
                        example_state))
   \<and> table_sized (snd (setConstant example_env (Location (Fin 0)) (JTypedArray [Fin 1])
                        JUndefined example_state))
   \<and> map fst example_attributes = [''positions'', ''offsets'', ''colors'']
   \<and> within_table example_env example_state (Name ''positions'')
   \<and> within_table example_env example_state (Name ''offsets'')
   \<and> within_table example_env example_state (Name ''colors'')
   \<and> table_sized (snd (setAttributes example_env example_attributes example_state))
   \<and> p_attributes example_props = Some example_attributes
   \<and> within_table example_env (snd (initialize example_env example_props example_state))
         (Name ''positions'')
   \<and> within_table example_env (snd (initialize example_env example_props example_state))
         (Name ''offsets'')
   \<and> within_table example_env (snd (initialize example_env example_props example_state))
         (Name ''colors'')
   \<and> table_sized (snd (initialize example_env example_props example_state))
   \<and> within_table example_env (snd (constructor example_env (WebGLContext 0) example_props))
         (Name ''positions'')
   \<and> within_table example_env (snd (constructor example_env (WebGLContext 0) example_props))
         (Name ''offsets'')
   \<and> within_table example_env (snd (constructor example_env (WebGLContext 0) example_props))
         (Name ''colors'')
   \<and> table_sized (snd (constructor example_env (WebGLContext 0) example_props))"
proof -
  have t: "table_sized example_state"
    by (simp add: table_sized_def example_state_eq new_Array_fill_16 array_length_def)
  have w: "within_table example_env example_state (Location (Fin 0))"
    by (simp add: within_table_def getAttributeIndex_def example_state_eq is_array_index_def)
  have wa: "\<forall>(k, v)\<in>set example_attributes. within_table example_env example_state (Name k)"
    by (simp add: within_table_def getAttributeIndex_def example_state_eq is_array_index_def
        example_attributes_def example_env_def example_Number_def)
  have c: "configuration (snd (initialize example_env example_props s)) = Some example_configuration"
    for s
    unfolding initialize_def
    by (rule setProps_configuration) (simp add: example_props_def)
  have v: "vertexArrayObject (snd (initialize example_env example_props s))
      = vertexArrayObject s" for s
  proof -
    obtain r s1 where i: "initialize example_env example_props s = (r, s1)"
      by (cases "initialize example_env example_props s")
    then have "vertexArrayObject s1 = vertexArrayObject (reset s)"
      unfolding initialize_def by (auto dest!: setProps_frame)
    then show ?thesis by (simp add: i reset_def Let_def)
  qed
  have wi: "within_table example_env (snd (initialize example_env example_props s)) (Name k)"
    if "MAX_ATTRIBUTES (vertexArrayObject s) = 16"
      and "k = ''positions'' \<or> k = ''offsets'' \<or> k = ''colors''" for s k
    using that
    by (auto simp: within_table_def getAttributeIndex_def c v example_configuration_def
        is_array_index_def)
  have pa: "p_attributes example_props = Some example_attributes"
    by (simp add: example_props_def)
  have hi: "\<forall>attrs. p_attributes example_props = Some attrs \<longrightarrow>
         (\<forall>(k, v)\<in>set attrs.
            within_table example_env (snd (initialize example_env example_props example_state))
              (Name k))"
    using wi [of example_state]
    by (simp add: pa example_attributes_def example_state_eq)
  have hc: "\<forall>attrs. p_attributes example_props = Some attrs \<longrightarrow>
         (\<forall>(k, v)\<in>set attrs.
            within_table example_env (snd (constructor example_env (WebGLContext 0) example_props))
              (Name k))"
  proof -
    obtain s0 where s0:
      "constructor example_env (WebGLContext 0) example_props
         = initialize example_env example_props s0"
      "vertexArrayObject s0 =
         (if isSupported example_env (WebGLContext 0)
          then new_VertexArrayObject example_env (WebGLContext 0)
          else getDefaultArray example_env (WebGLContext 0))"
      using constructor_initialize by blast
    from s0(2) have "MAX_ATTRIBUTES (vertexArrayObject s0) = 16"
      by (simp add: example_env_def)
    from wi [OF this] show ?thesis
      by (simp add: s0(1) pa example_attributes_def)
  qed
  have mf: "map fst example_attributes = [''positions'', ''offsets'', ''colors'']"
    by (simp add: example_attributes_def)
  from table_lengths [of example_state example_env "Location (Fin 0)" example_positions
      JUndefined "JTypedArray [Fin 1]" example_attributes example_props "WebGLContext 0"]
    t w wa hi hc
  have "table_sized (reset example_state)
    \<and> table_sized (snd (setBuffer example_env (Location (Fin 0)) example_positions JUndefined
                        example_state))
    \<and> table_sized (snd (setConstant example_env (Location (Fin 0)) (JTypedArray [Fin 1])
                        JUndefined example_state))
    \<and> table_sized (snd (setAttributes example_env example_attributes example_state))
    \<and> table_sized (snd (initialize example_env example_props example_state))
    \<and> table_sized (snd (constructor example_env (WebGLContext 0) example_props))"
    by blast
  moreover from wa have "within_table example_env example_state (Name ''positions'')"
      "within_table example_env example_state (Name ''offsets'')"
      "within_table example_env example_state (Name ''colors'')"
    by (simp_all add: example_attributes_def)
  moreover from hi pa
  have "within_table example_env (snd (initialize example_env example_props example_state))
         (Name ''positions'')"
    "within_table example_env (snd (initialize example_env example_props example_state))
         (Name ''offsets'')"
    "within_table example_env (snd (initialize example_env example_props example_state))
         (Name ''colors'')"
    by (simp_all add: example_attributes_def)
  moreover from hc pa
  have "within_table example_env (snd (constructor example_env (WebGLContext 0) example_props))
         (Name ''positions'')"
    "within_table example_env (snd (constructor example_env (WebGLContext 0) example_props))
         (Name ''offsets'')"
    "within_table example_env (snd (constructor example_env (WebGLContext 0) example_props))
         (Name ''colors'')"
    by (simp_all add: example_attributes_def)
  ultimately show ?thesis using t w mf pa by blast
qed

text \<open>
  As stated the claim fails: \<open>setBuffer(16, buffer)\<close> on a new VertexArray with 16
  attribute locations lengthens both arrays to 17 elements.
\<close>

theorem table_lengths_counterexample:
  "MAX_ATTRIBUTES (vertexArrayObject example_beyond) = 16
   \<and> array_length (values_arr example_beyond) = 17
   \<and> array_length (accessors example_beyond) = 17"
  by (simp add: example_beyond_eq array_length_def)

section \<open>Mutations clear the cached draw parameters\<close>

text \<open>
  Claim C9. After \<open>setElementBuffer\<close> the cached draw parameters are \<open>null\<close>. After a
  \<open>setBuffer\<close> that returns, given an element buffer or a name or location that resolves
  to a location \<open>>= 0\<close>, they are \<open>null\<close>, and in the second case the buffer is stored at
  that location. The same holds for a \<open>setConstant\<close> that returns, which stores the
  normalized constant. After each of them, and whenever the cached draw parameters are
  \<open>null\<close>, the next \<open>getDrawParams\<close> returns and caches the draw parameters of the
  tables as they then are, or throws when there are none.
\<close>

theorem mutation_clears_drawParams:
  "drawParams (setElementBuffer elementBuffer acc s) = None
   \<and> fst (getDrawParams env vc (setElementBuffer elementBuffer acc s))
       = drawParams_of_tables env (setElementBuffer elementBuffer acc s)
   \<and> (setBuffer env l buf a s = (Inr u, s1) \<and> target buf = GL_ELEMENT_ARRAY_BUFFER \<longrightarrow>
        drawParams s1 = None
        \<and> fst (getDrawParams env vc s1) = drawParams_of_tables env s1)
   \<and> (setBuffer env l buf a s = (Inr u, s1) \<and> target buf \<noteq> GL_ELEMENT_ARRAY_BUFFER
        \<and> resolves_to_location env s l \<longrightarrow>
        values_arr s1 = array_set (values_arr s) (getAttributeIndex env s l) (JBuffer buf)
        \<and> drawParams s1 = None
        \<and> fst (getDrawParams env vc s1) = drawParams_of_tables env s1)
   \<and> (setConstant env l v a s = (Inr u, s2) \<and> resolves_to_location env s l \<longrightarrow>
        (\<exists>acc. values_arr s2 = array_set (values_arr s) (getAttributeIndex env s l)
                  (normalizeConstantArrayValue env v acc))
        \<and> drawParams s2 = None
        \<and> fst (getDrawParams env vc s2) = drawParams_of_tables env s2)
   \<and> (drawParams s = None \<longrightarrow>
        getDrawParams env vc s =
          (case drawParams_of_tables env s of
             Inl e \<Rightarrow> (Inl e, s)
           | Inr dp \<Rightarrow>
               (Inr dp,
                updateAttributeZeroBuffer env
                  (if truthy vc then vc else JNumber (vertexCount dp))
                  (s\<lparr>drawParams := Some dp\<rparr>))))"
proof (intro conjI impI)
  show "drawParams (setElementBuffer elementBuffer acc s) = None" by simp
  then show "fst (getDrawParams env vc (setElementBuffer elementBuffer acc s))
       = drawParams_of_tables env (setElementBuffer elementBuffer acc s)"
    by (rule getDrawParams_tables_fst)
next
  assume "setBuffer env l buf a s = (Inr u, s1) \<and> target buf = GL_ELEMENT_ARRAY_BUFFER"
  then show n: "drawParams s1 = None" by (auto simp: setBuffer_def)
  then show "fst (getDrawParams env vc s1) = drawParams_of_tables env s1"
    by (rule getDrawParams_tables_fst)
next
  assume h: "setBuffer env l buf a s = (Inr u, s1) \<and> target buf \<noteq> GL_ELEMENT_ARRAY_BUFFER
        \<and> resolves_to_location env s l"
  with setBuffer_stores [of buf env l a s u s1]
  show "values_arr s1 = array_set (values_arr s) (getAttributeIndex env s l) (JBuffer buf)"
    and n: "drawParams s1 = None" by simp_all
  from n show "fst (getDrawParams env vc s1) = drawParams_of_tables env s1"
    by (rule getDrawParams_tables_fst)
next
  assume "setConstant env l v a s = (Inr u, s2) \<and> resolves_to_location env s l"
  with setConstant_stores [of env l v a s u s2]
  show "\<exists>acc. values_arr s2 = array_set (values_arr s) (getAttributeIndex env s l)
                  (normalizeConstantArrayValue env v acc)"
    and n: "drawParams s2 = None" by auto
  from n show "fst (getDrawParams env vc s2) = drawParams_of_tables env s2"
    by (rule getDrawParams_tables_fst)
next
  assume "drawParams s = None"
  then show "getDrawParams env vc s =
          (case drawParams_of_tables env s of
             Inl e \<Rightarrow> (Inl e, s)
           | Inr dp \<Rightarrow>
               (Inr dp,
                updateAttributeZeroBuffer env
                  (if truthy vc then vc else JNumber (vertexCount dp))
                  (s\<lparr>drawParams := Some dp\<rparr>)))"
    by (rule getDrawParams_tables)
qed

theorem mutation_clears_drawParams_witness:
  "drawParams example_drawn =
     Some \<lparr>isIndexed = True, isInstanced = True, indexCount = Fin 0, vertexCount = Fin 4,
           instanceCount = Fin 10, elementCount = Some (Fin 6),
           indexType = Some GL_UNSIGNED_SHORT\<rparr>
   \<and> target example_plain \<noteq> GL_ELEMENT_ARRAY_BUFFER
   \<and> resolves_to_location example_env example_drawn (Location (Fin 0))
   \<and> setBuffer example_env (Location (Fin 0)) example_plain JUndefined example_drawn
       = (Inr (), example_replaced)
   \<and> values_arr example_replaced
       = array_set (values_arr example_drawn) (Fin 0) (JBuffer example_plain)
   \<and> drawParams example_replaced = None
   \<and> fst (getDrawParams example_env JUndefined example_replaced) =
        Inr \<lparr>isIndexed = True, isInstanced = True, indexCount = Fin 0, vertexCount = Fin 0,
             instanceCount = Fin 10, elementCount = Some (Fin 6),
             indexType = Some GL_UNSIGNED_SHORT\<rparr>
   \<and> target example_indices = GL_ELEMENT_ARRAY_BUFFER
   \<and> (\<exists>s1. setBuffer example_env (Name ''indices'') example_indices JUndefined example_drawn
                = (Inr (), s1) \<and> drawParams s1 = None
           \<and> fst (getDrawParams example_env JUndefined s1)
               = drawParams_of_tables example_env s1)
   \<and> (\<exists>s2. setConstant example_env (Location (Fin 2)) (JTypedArray [Fin 1]) JUndefined
                example_drawn = (Inr (), s2) \<and> drawParams s2 = None
           \<and> fst (getDrawParams example_env JUndefined s2)
               = drawParams_of_tables example_env s2)
   \<and> drawParams (setElementBuffer None JUndefined example_drawn) = None
   \<and> fst (getDrawParams example_env JUndefined (setElementBuffer None JUndefined example_drawn))
       = drawParams_of_tables example_env (setElementBuffer None JUndefined example_drawn)
   \<and> drawParams example_scene = None
   \<and> fst (getDrawParams example_env JUndefined example_scene) =
        Inr \<lparr>isIndexed = True, isInstanced = True, indexCount = Fin 0, vertexCount = Fin 4,
             instanceCount = Fin 10, elementCount = Some (Fin 6),
             indexType = Some GL_UNSIGNED_SHORT\<rparr>"
proof -
  note cfg = example_drawn_configuration
  note m = mutation_clears_drawParams
  have t1: "target example_indices = GL_ELEMENT_ARRAY_BUFFER"
    by (simp add: example_indices_def)
  have t2: "target example_plain \<noteq> GL_ELEMENT_ARRAY_BUFFER"
    by (simp add: example_plain_def GL_ARRAY_BUFFER_def GL_ELEMENT_ARRAY_BUFFER_def)
  have r0: "resolves_to_location example_env example_drawn (Location (Fin 0))"
    by (simp add: resolves_to_location_def getAttributeIndex_def cfg)
  have r2: "resolves_to_location example_env example_drawn (Location (Fin 2))"
    by (simp add: resolves_to_location_def getAttributeIndex_def cfg)
  have g0: "getAttributeIndex example_env example_drawn (Location (Fin 0)) = Fin 0"
    by (simp add: getAttributeIndex_def cfg)
  have g2: "getAttributeIndex example_env example_drawn (Location (Fin 2)) = Fin 2"
    by (simp add: getAttributeIndex_def cfg)
  have b0: "fst (setBuffer example_env (Location (Fin 0)) example_plain JUndefined
      example_drawn) = Inr ()"
    using t2
    by (simp add: setBuffer_def resolveLocationAndAccessor_def g0 getAttributeInfo_of_def cfg
        example_env_fields example_plain_def example_accessor_def accessor_value_def
        default_object_def empty_object_def Let_def)
  then have sb: "setBuffer example_env (Location (Fin 0)) example_plain JUndefined example_drawn
       = (Inr (), example_replaced)"
    by (cases "setBuffer example_env (Location (Fin 0)) example_plain JUndefined example_drawn")
       (simp add: example_replaced_def)
  have b1: "fst (setBuffer example_env (Name ''indices'') example_indices JUndefined example_drawn)
      = Inr ()"
    by (simp add: setBuffer_def t1)
  have b3: "fst (setConstant example_env (Location (Fin 2)) (JTypedArray [Fin 1]) JUndefined
      example_drawn) = Inr ()"
    by (simp add: setConstant_def resolveLocationAndAccessor_def g2 getAttributeInfo_of_def cfg
        example_env_fields example_accessor_def
        default_object_def empty_object_def Let_def)
  have n: "drawParams example_scene = None" by (simp add: example_scene_eq)
  from m [where env = example_env and l = "Location (Fin 0)" and buf = example_plain
      and a = JUndefined and s = example_drawn and u = "()" and ?s1.0 = example_replaced
      and vc = JUndefined] sb t2 r0 g0
  have c0: "values_arr example_replaced
       = array_set (values_arr example_drawn) (Fin 0) (JBuffer example_plain)"
    "drawParams example_replaced = None"
    "fst (getDrawParams example_env JUndefined example_replaced)
       = drawParams_of_tables example_env example_replaced"
    by simp_all
  obtain s1 where s1: "setBuffer example_env (Name ''indices'') example_indices JUndefined
      example_drawn = (Inr (), s1)"
    using b1
    by (cases "setBuffer example_env (Name ''indices'') example_indices JUndefined example_drawn")
       auto
  from m [where env = example_env and l = "Name ''indices''" and buf = example_indices
      and a = JUndefined and s = example_drawn and u = "()" and ?s1.0 = s1
      and vc = JUndefined] s1 t1
  have c1: "\<exists>s1. setBuffer example_env (Name ''indices'') example_indices JUndefined example_drawn
                = (Inr (), s1) \<and> drawParams s1 = None
           \<and> fst (getDrawParams example_env JUndefined s1)
               = drawParams_of_tables example_env s1"
    by simp
  obtain s2 where s2: "setConstant example_env (Location (Fin 2)) (JTypedArray [Fin 1])
      JUndefined example_drawn = (Inr (), s2)"
    using b3
    by (cases "setConstant example_env (Location (Fin 2)) (JTypedArray [Fin 1]) JUndefined
           example_drawn") auto
  from m [where env = example_env and l = "Location (Fin 2)" and v = "JTypedArray [Fin 1]"
      and a = JUndefined and s = example_drawn and u = "()" and ?s2.0 = s2
      and vc = JUndefined] s2 r2
  have c2: "\<exists>s2. setConstant example_env (Location (Fin 2)) (JTypedArray [Fin 1]) JUndefined
                example_drawn = (Inr (), s2) \<and> drawParams s2 = None
           \<and> fst (getDrawParams example_env JUndefined s2)
               = drawParams_of_tables example_env s2"
    by simp
  from m [where env = example_env and elementBuffer = None and acc = JUndefined
      and s = example_drawn and vc = JUndefined]
  have c3: "drawParams (setElementBuffer None JUndefined example_drawn) = None"
    "fst (getDrawParams example_env JUndefined (setElementBuffer None JUndefined example_drawn))
       = drawParams_of_tables example_env (setElementBuffer None JUndefined example_drawn)"
    by simp_all
  from m [where env = example_env and s = example_scene and vc = JUndefined] n
  have "fst (getDrawParams example_env JUndefined example_scene)
      = drawParams_of_tables example_env example_scene"
    by (cases "drawParams_of_tables example_env example_scene") simp_all
  then have c5: "fst (getDrawParams example_env JUndefined example_scene) =
        Inr \<lparr>isIndexed = True, isInstanced = True, indexCount = Fin 0, vertexCount = Fin 4,
             instanceCount = Fin 10, elementCount = Some (Fin 6),
             indexType = Some GL_UNSIGNED_SHORT\<rparr>"
    by (simp add: updateDrawParams_tables [symmetric] example_scene_updateDrawParams)
  from example_drawn_drawParams t2 r0 sb c0 t1 c1 c2 c3 n c5
  show ?thesis by (simp add: example_replaced_drawParams)
qed

section \<open>Names and locations that do not resolve\<close>

text \<open>
  Claim C6, amended. For every name or location that does not resolve to an attribute
  location \<open>>= 0\<close>, \<open>setConstant\<close>, and \<open>setBuffer\<close> given a buffer whose target is not
  \<open>GL.ELEMENT_ARRAY_BUFFER\<close>, leave the table of values, the table of accessors, the
  element buffer and the cached draw parameters as they were, whether they return or
  throw.
\<close>

theorem unresolved_location_is_ignored:
  assumes "\<not> resolves_to_location env s l"
  shows "(target buf \<noteq> GL_ELEMENT_ARRAY_BUFFER \<longrightarrow>
            values_arr (snd (setBuffer env l buf a s)) = values_arr s
          \<and> accessors (snd (setBuffer env l buf a s)) = accessors s
          \<and> elements (snd (setBuffer env l buf a s)) = elements s
          \<and> drawParams (snd (setBuffer env l buf a s)) = drawParams s)
       \<and> values_arr (snd (setConstant env l v a s)) = values_arr s
       \<and> accessors (snd (setConstant env l v a s)) = accessors s
       \<and> elements (snd (setConstant env l v a s)) = elements s
       \<and> drawParams (snd (setConstant env l v a s)) = drawParams s"
  using setBuffer_ignores [of buf env s l a] setConstant_ignores [OF assms, of v a] assms
  by blast

theorem unresolved_location_is_ignored_witness:
  "\<not> resolves_to_location example_env example_configured (Name ''normals'')
   \<and> target example_positions \<noteq> GL_ELEMENT_ARRAY_BUFFER
   \<and> values_arr (snd (setBuffer example_env (Name ''normals'') example_positions JUndefined
                        example_configured)) = values_arr example_configured
   \<and> accessors (snd (setBuffer example_env (Name ''normals'') example_positions JUndefined
                        example_configured)) = accessors example_configured
   \<and> drawParams (snd (setBuffer example_env (Name ''normals'') example_positions JUndefined
                        example_configured)) = drawParams example_configured
   \<and> values_arr (snd (setConstant example_env (Name ''normals'') (JTypedArray [Fin 0, Fin 0, Fin 1])
                        JUndefined example_configured)) = values_arr example_configured
   \<and> accessors (snd (setConstant example_env (Name ''normals'') (JTypedArray [Fin 0, Fin 0, Fin 1])
                        JUndefined example_configured)) = accessors example_configured
   \<and> drawParams (snd (setConstant example_env (Name ''normals'') (JTypedArray [Fin 0, Fin 0, Fin 1])
                        JUndefined example_configured)) = drawParams example_configured"
proof -
  have h: "\<not> resolves_to_location example_env example_configured (Name ''normals'')"
    by (simp add: resolves_to_location_def getAttributeIndex_def
        example_configured_configuration example_configuration_def)
  have t: "target example_positions \<noteq> GL_ELEMENT_ARRAY_BUFFER"
    by (simp add: example_positions_def GL_ARRAY_BUFFER_def GL_ELEMENT_ARRAY_BUFFER_def)
  from unresolved_location_is_ignored [OF h, of example_positions JUndefined
      "JTypedArray [Fin 0, Fin 0, Fin 1]"] h t
  show ?thesis by blast
qed

text \<open>
  As stated the claim fails for \<open>setBuffer\<close>: a buffer whose target is
  \<open>GL.ELEMENT_ARRAY_BUFFER\<close> becomes the element buffer whatever the name is, and the
  cached draw parameters are cleared. Here the name \<open>indices\<close> resolves to \<open>-1\<close>.
\<close>

theorem unresolved_location_counterexample:
  "\<not> resolves_to_location example_env example_drawn (Name ''indices'')
   \<and> drawParams example_drawn \<noteq> None
   \<and> drawParams (snd (setBuffer example_env (Name ''indices'') example_indices JUndefined
                        example_drawn)) = None"
proof -
  note cfg = example_drawn_configuration
  have "\<not> resolves_to_location example_env example_drawn (Name ''indices'')"
    by (simp add: resolves_to_location_def getAttributeIndex_def cfg example_env_fields
        example_Number_def)
  moreover have "drawParams example_drawn \<noteq> None" by (simp add: example_drawn_drawParams)
  moreover have "drawParams (snd (setBuffer example_env (Name ''indices'') example_indices
      JUndefined example_drawn)) = None"
    by (simp add: setBuffer_def example_indices_def)
  ultimately show ?thesis by blast
qed

section \<open>The calls made before and after the binding\<close>


lemma runs_without_binding_refl [simp]: "runs_without_binding s s"
  by (simp add: runs_without_binding_def without_binding_def)



















section \<open>Binding around a function\<close>




section \<open>The attributes given to setAttributes\<close>



























end
